theory Spec2Isabelle
  imports Main "HOL-Library.AList" "HOL-Library.Option_ord" "HOL-Library.Char_ord" "HOL-Library.List_Lexorder"
begin

section \<open>PalletFlow: the data model, the storage layer and the HTTP handlers\<close>

text \<open>
  The development follows three source modules: the schema (tables, insert schemas,
  login schema), the storage class \<open>DatabaseStorage\<close> and the route handlers of
  \<open>registerRoutes\<close>, together with the migration
  \<open>add_item_type_to_activity_log.sql\<close>.

  Conventions of the embedding.
  \<^item> A table is the list of its rows in insertion order; the database is a record of the
    five tables, the next value of each \<open>serial\<close> sequence, and one flag telling whether
    the migration has been applied.
  \<^item> A storage method that can throw returns \<open>error + result\<close>; the \<open>try/catch\<close> of a
    handler turns \<open>Inl\<close> into the handler's 400 answer.
  \<^item> A string is the list of the bytes of its UTF-8 encoding.
  \<^item> The pico and stock handlers read the fields of \<open>req.body\<close> and use them before
    any schema has seen them. These fields are JavaScript primitives (\<open>prim\<close>): absent,
    \<open>null\<close>, a boolean, a number or a string. A number is a whole number; a JSON number
    with a fraction, and an array or object in the place of such a field, are outside
    the embedding. The bodies of the user, product and login routes are read at the
    types the API documents.
  \<^item> The route parameter \<open>:id\<close> is the integer that \<open>parseInt\<close> yields; a parameter
    that \<open>parseInt\<close> reads as \<open>NaN\<close> is outside the embedding.
  \<^item> A column declared \<open>integer\<close> holds a 32-bit integer. A value that a request brings
    to such a column (a number or a string of a body, the id of a route) is read by the
    column's input function, which refuses what is not an integer in that range; the
    query then throws. Values read from the database are in range already. The
    sequences are not bounded.
  \<^item> The constraints the schema declares are enforced by the storage functions: unique
    columns, foreign keys, the length of \<open>varchar(2)\<close>, the enums. Ids come from the
    sequences only, so primary keys never clash. A refused insert leaves the database as
    it was; the sequence value the database may spend on it is not modelled.
  \<^item> The clock (\<open>defaultNow()\<close>, \<open>new Date()\<close>) is the parameter \<open>now\<close>.
\<close>

subsection \<open>JavaScript values handed to \<open>res.json\<close>\<close>

datatype jsval =
    JUndefined
  | JNull
  | JBool bool
  | JNum int
  | JStr string
  | JDate int
  | JArr "jsval list"
  | JObj "(string \<times> jsval) list"

text \<open>
  \<open>JSON.stringify\<close>: a property whose value is \<open>undefined\<close> is left out of an object,
  an \<open>undefined\<close> array element becomes \<open>null\<close>. (A \<open>JDate\<close> stands for the ISO
  string of the date.)
\<close>

fun stringify :: "jsval \<Rightarrow> jsval"
  and stringify_props :: "(string \<times> jsval) list \<Rightarrow> (string \<times> jsval) list"
  and stringify_elems :: "jsval list \<Rightarrow> jsval list" where
  "stringify (JObj kvs) = JObj (stringify_props kvs)"
| "stringify (JArr vs) = JArr (stringify_elems vs)"
| "stringify JUndefined = JUndefined"
| "stringify JNull = JNull"
| "stringify (JBool b) = JBool b"
| "stringify (JNum n) = JNum n"
| "stringify (JStr s) = JStr s"
| "stringify (JDate t) = JDate t"
| "stringify_props [] = []"
| "stringify_props ((k, v) # kvs) =
     (if v = JUndefined then stringify_props kvs else (k, stringify v) # stringify_props kvs)"
| "stringify_elems [] = []"
| "stringify_elems (v # vs) =
     (if v = JUndefined then JNull else stringify v) # stringify_elems vs"

text \<open>Whether some object inside a value, at any depth, has the property \<open>k\<close>.\<close>

fun has_field :: "string \<Rightarrow> jsval \<Rightarrow> bool"
  and has_field_props :: "string \<Rightarrow> (string \<times> jsval) list \<Rightarrow> bool"
  and has_field_elems :: "string \<Rightarrow> jsval list \<Rightarrow> bool" where
  "has_field k (JObj kvs) = has_field_props k kvs"
| "has_field k (JArr vs) = has_field_elems k vs"
| "has_field k JUndefined = False"
| "has_field k JNull = False"
| "has_field k (JBool b) = False"
| "has_field k (JNum n) = False"
| "has_field k (JStr s) = False"
| "has_field k (JDate t) = False"
| "has_field_props k [] = False"
| "has_field_props k ((k', v) # kvs) = (k' = k \<or> has_field k v \<or> has_field_props k kvs)"
| "has_field_elems k [] = False"
| "has_field_elems k (v # vs) = (has_field k v \<or> has_field_elems k vs)"

record response =
  status :: nat
  body :: jsval

definition res_json :: "jsval \<Rightarrow> response" where
  "res_json v = \<lparr>status = 200, body = v\<rparr>"

definition res_status_json :: "nat \<Rightarrow> jsval \<Rightarrow> response" where
  "res_status_json code v = \<lparr>status = code, body = v\<rparr>"

definition message :: "string \<Rightarrow> jsval" where
  "message m = JObj [(''message'', JStr m)]"

subsection \<open>JavaScript primitives and their arithmetic\<close>

text \<open>
  The value of a field of \<open>req.body\<close>, and the results of \<open>*\<close>, \<open>+\<close>, \<open>&&\<close> and \<open>||\<close> on
  such values. \<open>PUndefined\<close> is an absent field, \<open>PNaN\<close> the number \<open>NaN\<close>.
\<close>

datatype prim = PUndefined | PNull | PBool bool | PNum int | PNaN | PStr string

definition is_digit :: "char \<Rightarrow> bool" where
  "is_digit c = (c \<in> set ''0123456789'')"

text \<open>The six ASCII white-space characters: space, tab, line feed, vertical tab, form feed, return.\<close>

definition is_space :: "char \<Rightarrow> bool" where
  "is_space c = (c \<in> set [CHR '' '', CHR 0x09, CHR 0x0A, CHR 0x0B, CHR 0x0C, CHR 0x0D])"

definition trim :: "string \<Rightarrow> string" where
  "trim s = rev (dropWhile is_space (rev (dropWhile is_space s)))"

definition digit_value :: "char \<Rightarrow> nat" where
  "digit_value c = length (takeWhile (\<lambda>d. d \<noteq> c) ''0123456789'')"

definition digits_value :: "string \<Rightarrow> nat" where
  "digits_value s = foldl (\<lambda>n c. 10 * n + digit_value c) 0 s"

text \<open>An optional sign and at least one decimal digit.\<close>

definition integer_literal :: "string \<Rightarrow> int option" where
  "integer_literal s =
     (case s of
        [] \<Rightarrow> None
      | c # r \<Rightarrow>
          if c = CHR ''-'' then (if r \<noteq> [] \<and> list_all is_digit r then Some (- int (digits_value r)) else None)
          else if c = CHR ''+'' then (if r \<noteq> [] \<and> list_all is_digit r then Some (int (digits_value r)) else None)
          else if list_all is_digit s then Some (int (digits_value s))
          else None)"

text \<open>The decimal digits of a natural number, and \<open>String(n)\<close> of a whole number.\<close>

fun decimal :: "nat \<Rightarrow> string" where
  "decimal n =
     (if n < 10 then [''0123456789'' ! n]
      else decimal (n div 10) @ [''0123456789'' ! (n mod 10)])"

declare decimal.simps [simp del]

definition number_text :: "int \<Rightarrow> string" where
  "number_text n = (if n < 0 then CHR ''-'' # decimal (nat (- n)) else decimal (nat n))"

text \<open>
  \<open>ToNumber\<close> of a string: white space is trimmed, the empty string is 0, a signed decimal
  integer is its value. Every other string is \<open>PNaN\<close> here. (JavaScript also reads
  fractions, exponents, radix prefixes and \<open>Infinity\<close>, and trims Unicode spaces; none of
  those strings is accepted by an \<open>integer\<close> column, and the handlers that multiply a
  string also store it in one.)
\<close>

definition string_to_number :: "string \<Rightarrow> prim" where
  "string_to_number s =
     (let t = trim s in
      if t = [] then PNum 0
      else (case integer_literal t of None \<Rightarrow> PNaN | Some n \<Rightarrow> PNum n))"

definition to_number :: "prim \<Rightarrow> prim" where
  "to_number v =
     (case v of
        PUndefined \<Rightarrow> PNaN
      | PNull \<Rightarrow> PNum 0
      | PBool b \<Rightarrow> PNum (if b then 1 else 0)
      | PNum n \<Rightarrow> PNum n
      | PNaN \<Rightarrow> PNaN
      | PStr s \<Rightarrow> string_to_number s)"

definition to_string :: "prim \<Rightarrow> string" where
  "to_string v =
     (case v of
        PUndefined \<Rightarrow> ''undefined''
      | PNull \<Rightarrow> ''null''
      | PBool b \<Rightarrow> (if b then ''true'' else ''false'')
      | PNum n \<Rightarrow> number_text n
      | PNaN \<Rightarrow> ''NaN''
      | PStr s \<Rightarrow> s)"

definition is_string :: "prim \<Rightarrow> bool" where
  "is_string v = (case v of PStr s \<Rightarrow> True | _ \<Rightarrow> False)"

text \<open>\<open>a * b\<close>: both operands are converted to numbers.\<close>

definition js_times :: "prim \<Rightarrow> prim \<Rightarrow> prim" where
  "js_times a b =
     (case to_number a of
        PNum x \<Rightarrow> (case to_number b of PNum y \<Rightarrow> PNum (x * y) | _ \<Rightarrow> PNaN)
      | _ \<Rightarrow> PNaN)"

text \<open>\<open>a + b\<close>: concatenation when either operand is a string, addition of numbers otherwise.\<close>

definition js_plus :: "prim \<Rightarrow> prim \<Rightarrow> prim" where
  "js_plus a b =
     (if is_string a \<or> is_string b then PStr (to_string a @ to_string b)
      else (case to_number a of
              PNum x \<Rightarrow> (case to_number b of PNum y \<Rightarrow> PNum (x + y) | _ \<Rightarrow> PNaN)
            | _ \<Rightarrow> PNaN))"

definition truthy :: "prim \<Rightarrow> bool" where
  "truthy v =
     (case v of
        PUndefined \<Rightarrow> False
      | PNull \<Rightarrow> False
      | PBool b \<Rightarrow> b
      | PNum n \<Rightarrow> n \<noteq> 0
      | PNaN \<Rightarrow> False
      | PStr s \<Rightarrow> s \<noteq> [])"

text \<open>\<open>a || b\<close>.\<close>

definition js_or :: "prim \<Rightarrow> prim \<Rightarrow> prim" where
  "js_or a b = (if truthy a then a else b)"

text \<open>A primitive handed to \<open>res.json\<close> (\<open>NaN\<close> is serialised as \<open>null\<close>).\<close>

definition js_prim :: "prim \<Rightarrow> jsval" where
  "js_prim v =
     (case v of
        PUndefined \<Rightarrow> JUndefined
      | PNull \<Rightarrow> JNull
      | PBool b \<Rightarrow> JBool b
      | PNum n \<Rightarrow> JNum n
      | PNaN \<Rightarrow> JNull
      | PStr s \<Rightarrow> JStr s)"

subsection \<open>Query parameters and the columns that read them\<close>

text \<open>The range of an \<open>integer\<close> column.\<close>

definition int4 :: "int \<Rightarrow> bool" where
  "int4 n = (- 2147483648 \<le> n \<and> n \<le> 2147483647)"

text \<open>
  The input function of \<open>integer\<close>: white space around an optionally signed run of
  decimal digits, in range. (This is PostgreSQL 15, the version the installation guide
  of the repository runs; later versions also read radix prefixes and underscores.)
\<close>

definition integer_in :: "string \<Rightarrow> int option" where
  "integer_in s =
     (case integer_literal (trim s) of
        None \<Rightarrow> None
      | Some n \<Rightarrow> if int4 n then Some n else None)"

text \<open>
  A primitive written to an \<open>integer NOT NULL\<close> column. The driver sends a number as its
  decimal text, which the column reads back when it is in range, and a string as it is.
  \<open>undefined\<close> and \<open>null\<close> are sent as \<open>NULL\<close>; the texts of a boolean and of \<open>NaN\<close> are
  no integers. \<open>None\<close> is a query that fails.
\<close>

definition integer_column :: "prim \<Rightarrow> int option" where
  "integer_column v =
     (case v of
        PNum n \<Rightarrow> if int4 n then Some n else None
      | PStr s \<Rightarrow> integer_in s
      | _ \<Rightarrow> None)"

text \<open>The text the driver sends for a primitive; \<open>None\<close> is \<open>NULL\<close>.\<close>

definition text_param :: "prim \<Rightarrow> string option" where
  "text_param v =
     (case v of
        PUndefined \<Rightarrow> None
      | PNull \<Rightarrow> None
      | _ \<Rightarrow> Some (to_string v))"

text \<open>
  A \<open>varchar(n)\<close> column counts characters: the bytes of the encoding that are not
  continuation bytes (\<open>10xxxxxx\<close>). A longer string is an error, unless all the excess
  characters are spaces, which are cut off.
\<close>

fun is_continuation :: "char \<Rightarrow> bool" where
  "is_continuation (Char b0 b1 b2 b3 b4 b5 b6 b7) = (b7 \<and> \<not> b6)"

definition characters :: "string \<Rightarrow> nat" where
  "characters s = length (filter (\<lambda>c. \<not> is_continuation c) s)"

definition varchar :: "nat \<Rightarrow> string \<Rightarrow> string option" where
  "varchar n s =
     (if characters s \<le> n then Some s
      else if list_all (\<lambda>c. c = CHR '' '') (drop (length s - (characters s - n)) s)
      then Some (take (length s - (characters s - n)) s)
      else None)"

text \<open>A primitive written to a \<open>varchar(n) NOT NULL\<close> column.\<close>

definition varchar_column :: "nat \<Rightarrow> prim \<Rightarrow> string option" where
  "varchar_column n v = (case text_param v of None \<Rightarrow> None | Some t \<Rightarrow> varchar n t)"

text \<open>
  A key of the object given to \<open>.set(...)\<close>: \<open>undefined\<close> leaves the column out of the
  statement (\<open>Some None\<close>); otherwise the column reads the value, and \<open>None\<close> is a
  statement that fails.
\<close>

definition set_key :: "(prim \<Rightarrow> 'a option) \<Rightarrow> prim \<Rightarrow> 'a option option" where
  "set_key column v = (if v = PUndefined then Some None else map_option Some (column v))"

subsection \<open>Schema\<close>

datatype userRoleEnum = administrador | armazenista

datatype categoryEnum = alta_rotacao | baixa_rotacao

type_synonym timestamp = int

record User =
  user_id :: int
  user_name :: string
  user_nickname :: string
  user_username :: string
  user_password :: string
  user_role :: userRoleEnum
  user_isFirstLogin :: "bool option"
  user_createdAt :: "timestamp option"
  user_updatedAt :: "timestamp option"

record Product =
  product_id :: int
  product_code :: string
  product_description :: string
  product_quantityBases :: int
  product_unitsPerBase :: int
  product_category :: categoryEnum
  product_createdAt :: "timestamp option"
  product_updatedAt :: "timestamp option"

record Pico =
  pico_id :: int
  pico_productId :: int
  pico_bases :: int
  pico_looseUnits :: int
  pico_totalUnits :: int
  pico_towerLocation :: string
  pico_createdAt :: "timestamp option"
  pico_updatedAt :: "timestamp option"

record PaletizadoStock =
  stock_id :: int
  stock_productId :: int
  stock_quantity :: int
  stock_createdAt :: "timestamp option"
  stock_updatedAt :: "timestamp option"

text \<open>
  \<open>activity_itemType\<close> is the column \<open>item_type\<close> of the migration; the schema module
  does not declare it, so no insert of the storage layer gives it a value.
\<close>

record ActivityLog =
  activity_id :: int
  activity_type :: string
  activity_productCode :: string
  activity_productDescription :: string
  activity_quantity :: int
  activity_category :: categoryEnum
  activity_itemType :: "string option"
  activity_createdAt :: "timestamp option"

record InsertUser =
  new_user_name :: string
  new_user_nickname :: string
  new_user_username :: string
  new_user_password :: string
  new_user_role :: userRoleEnum
  new_user_isFirstLogin :: "bool option"

record InsertProduct =
  new_product_code :: string
  new_product_description :: string
  new_product_quantityBases :: int
  new_product_unitsPerBase :: int
  new_product_category :: categoryEnum

text \<open>
  What \<open>insertPicoSchema.parse\<close> and \<open>insertPaletizadoStockSchema.parse\<close> return: a key
  that the schema allows to be absent (its column has a default) is \<open>None\<close> when absent.
\<close>

record InsertPico =
  new_pico_productId :: int
  new_pico_bases :: "int option"
  new_pico_looseUnits :: "int option"
  new_pico_totalUnits :: int
  new_pico_towerLocation :: string

record InsertPaletizadoStock =
  new_stock_productId :: int
  new_stock_quantity :: "int option"

text \<open>
  The handlers build the activity-log entry themselves, without a schema; its quantity
  is whatever the handler has at hand.
\<close>

record InsertActivityLog =
  new_activity_type :: string
  new_activity_productCode :: string
  new_activity_productDescription :: string
  new_activity_quantity :: prim
  new_activity_category :: categoryEnum

text \<open>
  \<open>Partial<InsertPico>\<close> and \<open>Partial<InsertPaletizadoStock>\<close> as the handlers build
  them, from the request body: \<open>PUndefined\<close> (\<open>None\<close> for the product id, which no handler
  sets) is an absent key.
\<close>

record UpdatePico =
  set_pico_productId :: "int option"
  set_pico_bases :: prim
  set_pico_looseUnits :: prim
  set_pico_totalUnits :: prim
  set_pico_towerLocation :: prim

record UpdatePaletizadoStock =
  set_stock_productId :: "int option"
  set_stock_quantity :: prim

text \<open>The columns of a \<open>SET\<close> clause once they have read their values; \<open>None\<close> is a column left out.\<close>

record PicoSet =
  pico_set_productId :: "int option"
  pico_set_bases :: "int option"
  pico_set_looseUnits :: "int option"
  pico_set_totalUnits :: "int option"
  pico_set_towerLocation :: "string option"

record StockSet =
  stock_set_productId :: "int option"
  stock_set_quantity :: "int option"

text \<open>The regular expression \<open>/^\d{2}$/\<close> of \<open>insertPicoSchema\<close>.\<close>

definition two_digits :: "string \<Rightarrow> bool" where
  "two_digits s = (length s = 2 \<and> list_all is_digit s)"

text \<open>
  \<open>z.number()\<close>, and \<open>z.number().optional()\<close> for a column with a default (\<open>None\<close> is a
  parse error, \<open>Some None\<close> an absent key). Whether the generated schema also bounds the
  number by the range of the column depends on the version of the generator; the insert
  that follows the parse refuses a number outside the range in either case.
\<close>

definition z_number :: "prim \<Rightarrow> int option" where
  "z_number v = (case v of PNum n \<Rightarrow> Some n | _ \<Rightarrow> None)"

definition z_number_optional :: "prim \<Rightarrow> int option option" where
  "z_number_optional v = (if v = PUndefined then Some None else map_option Some (z_number v))"

text \<open>
  \<open>insertPicoSchema.parse\<close> on the object the pico handler builds: \<open>productId\<close> is the id
  of the product row; \<open>bases\<close> and \<open>looseUnits\<close> are numbers or absent, \<open>totalUnits\<close> is a
  number, \<open>towerLocation\<close> is a string that matches the expression.
\<close>

definition insertPicoSchema :: "int \<Rightarrow> prim \<Rightarrow> prim \<Rightarrow> prim \<Rightarrow> prim \<Rightarrow> InsertPico option" where
  "insertPicoSchema productId bases looseUnits totalUnits towerLocation =
     (case z_number_optional bases of
        None \<Rightarrow> None
      | Some b \<Rightarrow>
          (case z_number_optional looseUnits of
             None \<Rightarrow> None
           | Some l \<Rightarrow>
               (case z_number totalUnits of
                  None \<Rightarrow> None
                | Some t \<Rightarrow>
                    (case towerLocation of
                       PStr tw \<Rightarrow>
                         if two_digits tw
                         then Some \<lparr>new_pico_productId = productId, new_pico_bases = b,
                                    new_pico_looseUnits = l, new_pico_totalUnits = t,
                                    new_pico_towerLocation = tw\<rparr>
                         else None
                     | _ \<Rightarrow> None))))"

definition insertPaletizadoStockSchema :: "int \<Rightarrow> prim \<Rightarrow> InsertPaletizadoStock option" where
  "insertPaletizadoStockSchema productId quantity =
     (case z_number_optional quantity of
        None \<Rightarrow> None
      | Some q \<Rightarrow> Some \<lparr>new_stock_productId = productId, new_stock_quantity = q\<rparr>)"

text \<open>
  \<open>Partial<InsertUser>\<close> and \<open>Partial<InsertProduct>\<close>, as the \<open>PUT\<close> routes pass them on
  from the request body: an enum arrives as a string and is checked by its column.
\<close>

record UpdateUser =
  set_user_name :: "string option"
  set_user_nickname :: "string option"
  set_user_username :: "string option"
  set_user_password :: "string option"
  set_user_role :: "string option"
  set_user_isFirstLogin :: "bool option"

record UpdateProduct =
  set_product_code :: "string option"
  set_product_description :: "string option"
  set_product_quantityBases :: "int option"
  set_product_unitsPerBase :: "int option"
  set_product_category :: "string option"

text \<open>The two \<open>pgEnum\<close>s, read from a string.\<close>

definition parse_userRole :: "string \<Rightarrow> userRoleEnum option" where
  "parse_userRole s =
     (if s = ''administrador'' then Some administrador
      else if s = ''armazenista'' then Some armazenista
      else None)"

definition parse_category :: "string \<Rightarrow> categoryEnum option" where
  "parse_category s =
     (if s = ''alta_rotacao'' then Some alta_rotacao
      else if s = ''baixa_rotacao'' then Some baixa_rotacao
      else None)"

text \<open>Request bodies of the user and product routes, and their insert schemas.\<close>

record user_body =
  req_name :: string
  req_nickname :: string
  req_username :: string
  req_password :: string
  req_role :: string
  req_isFirstLogin :: "bool option"

record product_body =
  req_code :: string
  req_description :: string
  req_quantityBases :: int
  req_unitsPerBase :: int
  req_category :: string

definition insertUserSchema :: "user_body \<Rightarrow> InsertUser option" where
  "insertUserSchema b =
     (case parse_userRole (req_role b) of
        None \<Rightarrow> None
      | Some r \<Rightarrow>
          Some \<lparr>new_user_name = req_name b, new_user_nickname = req_nickname b,
                 new_user_username = req_username b, new_user_password = req_password b,
                 new_user_role = r, new_user_isFirstLogin = req_isFirstLogin b\<rparr>)"

definition insertProductSchema :: "product_body \<Rightarrow> InsertProduct option" where
  "insertProductSchema b =
     (case parse_category (req_category b) of
        None \<Rightarrow> None
      | Some c \<Rightarrow>
          Some \<lparr>new_product_code = req_code b, new_product_description = req_description b,
                 new_product_quantityBases = req_quantityBases b,
                 new_product_unitsPerBase = req_unitsPerBase b,
                 new_product_category = c\<rparr>)"

text \<open>\<open>loginSchema\<close> and \<open>passwordChangeSchema\<close>: the parsed body, or nothing.\<close>

record login_body =
  login_username :: string
  login_password :: string

record password_body =
  newPassword :: string
  confirmPassword :: string

definition loginSchema :: "login_body \<Rightarrow> login_body option" where
  "loginSchema b =
     (if 1 \<le> length (login_username b) \<and> 1 \<le> length (login_password b) then Some b else None)"

definition passwordChangeSchema :: "password_body \<Rightarrow> password_body option" where
  "passwordChangeSchema b =
     (if 6 \<le> length (newPassword b) \<and> 6 \<le> length (confirmPassword b)
         \<and> newPassword b = confirmPassword b
      then Some b else None)"

subsection \<open>The database\<close>

record db =
  users :: "User list"
  products :: "Product list"
  picos :: "Pico list"
  paletizadoStock :: "PaletizadoStock list"
  activityLog :: "ActivityLog list"
  users_id_seq :: int
  products_id_seq :: int
  picos_id_seq :: int
  paletizado_stock_id_seq :: int
  activity_log_id_seq :: int
  item_type_not_null :: bool

datatype error = ZodError | DatabaseError

text \<open>The migration: add \<open>item_type\<close>, fill the rows there are, then forbid \<open>NULL\<close>.\<close>

definition add_item_type_to_activity_log :: "db \<Rightarrow> db" where
  "add_item_type_to_activity_log d =
     d\<lparr>activityLog :=
         map (\<lambda>a. if activity_itemType a = None
                   then a\<lparr>activity_itemType := Some ''paletizado''\<rparr> else a) (activityLog d),
       item_type_not_null := True\<rparr>"

subsection \<open>Storage: products, picos, activity log\<close>

text \<open>The code is compared as the text that the driver sends for it; \<open>NULL\<close> equals nothing.\<close>

definition getProductByCode :: "db \<Rightarrow> prim \<Rightarrow> Product option" where
  "getProductByCode d code =
     (case text_param code of
        None \<Rightarrow> None
      | Some t \<Rightarrow> find (\<lambda>p. product_code p = t) (products d))"

definition getProduct :: "db \<Rightarrow> int \<Rightarrow> Product option" where
  "getProduct d i = find (\<lambda>p. product_id p = i) (products d)"

text \<open>
  \<open>PicoWithProduct\<close> is the pair of the row and its product (the left join). The id is
  compared with an \<open>integer\<close> column: outside the range the query fails.
\<close>

definition getPico :: "db \<Rightarrow> int \<Rightarrow> error + (Pico \<times> Product) option" where
  "getPico d i =
     (if \<not> int4 i then Inl DatabaseError
      else
        Inr (case find (\<lambda>p. pico_id p = i) (picos d) of
               None \<Rightarrow> None
             | Some p \<Rightarrow>
                 (case find (\<lambda>q. product_id q = pico_productId p) (products d) of
                    None \<Rightarrow> None
                  | Some q \<Rightarrow> Some (p, q))))"

definition references_product :: "db \<Rightarrow> int \<Rightarrow> bool" where
  "references_product d i = list_ex (\<lambda>q. product_id q = i) (products d)"

text \<open>\<open>bases\<close> and \<open>looseUnits\<close> default to 0.\<close>

definition createPico :: "timestamp \<Rightarrow> db \<Rightarrow> InsertPico \<Rightarrow> error + (Pico \<times> db)" where
  "createPico now d insertPico =
     (let bases = (case new_pico_bases insertPico of None \<Rightarrow> 0 | Some v \<Rightarrow> v);
          looseUnits = (case new_pico_looseUnits insertPico of None \<Rightarrow> 0 | Some v \<Rightarrow> v)
      in
        if \<not> references_product d (new_pico_productId insertPico) then Inl DatabaseError
        else if \<not> (int4 bases \<and> int4 looseUnits \<and> int4 (new_pico_totalUnits insertPico))
        then Inl DatabaseError
        else
          (case varchar 2 (new_pico_towerLocation insertPico) of
             None \<Rightarrow> Inl DatabaseError
           | Some t \<Rightarrow>
               let pico = \<lparr>pico_id = picos_id_seq d,
                           pico_productId = new_pico_productId insertPico,
                           pico_bases = bases,
                           pico_looseUnits = looseUnits,
                           pico_totalUnits = new_pico_totalUnits insertPico,
                           pico_towerLocation = t,
                           pico_createdAt = Some now,
                           pico_updatedAt = Some now\<rparr>
               in Inr (pico, d\<lparr>picos := picos d @ [pico], picos_id_seq := picos_id_seq d + 1\<rparr>)))"

definition set_pico :: "timestamp \<Rightarrow> PicoSet \<Rightarrow> Pico \<Rightarrow> Pico" where
  "set_pico now cols p =
     p\<lparr>pico_productId := (case pico_set_productId cols of None \<Rightarrow> pico_productId p | Some v \<Rightarrow> v),
       pico_bases := (case pico_set_bases cols of None \<Rightarrow> pico_bases p | Some v \<Rightarrow> v),
       pico_looseUnits := (case pico_set_looseUnits cols of None \<Rightarrow> pico_looseUnits p | Some v \<Rightarrow> v),
       pico_totalUnits := (case pico_set_totalUnits cols of None \<Rightarrow> pico_totalUnits p | Some v \<Rightarrow> v),
       pico_towerLocation :=
         (case pico_set_towerLocation cols of None \<Rightarrow> pico_towerLocation p | Some v \<Rightarrow> v),
       pico_updatedAt := Some now\<rparr>"

text \<open>The columns read the values of \<open>updates\<close>; one refusal fails the statement.\<close>

definition pico_set :: "UpdatePico \<Rightarrow> PicoSet option" where
  "pico_set updates =
     (case set_key integer_column (set_pico_bases updates) of
        None \<Rightarrow> None
      | Some b \<Rightarrow>
          (case set_key integer_column (set_pico_looseUnits updates) of
             None \<Rightarrow> None
           | Some l \<Rightarrow>
               (case set_key integer_column (set_pico_totalUnits updates) of
                  None \<Rightarrow> None
                | Some t \<Rightarrow>
                    (case set_key (varchar_column 2) (set_pico_towerLocation updates) of
                       None \<Rightarrow> None
                     | Some tw \<Rightarrow>
                         Some \<lparr>pico_set_productId = set_pico_productId updates,
                                pico_set_bases = b, pico_set_looseUnits = l,
                                pico_set_totalUnits = t, pico_set_towerLocation = tw\<rparr>))))"

text \<open>
  \<open>updatePico\<close>: every row with the id gets the keys present in \<open>updates\<close> and a new
  \<open>updatedAt\<close>; the result is the first row returned, \<open>undefined\<close> when none matched.
  A \<open>productId\<close> must reference a product.
\<close>

definition update_picos :: "timestamp \<Rightarrow> db \<Rightarrow> int \<Rightarrow> PicoSet \<Rightarrow> Pico option \<times> db" where
  "update_picos now d i cols =
     (let rows = map (\<lambda>p. if pico_id p = i then set_pico now cols p else p) (picos d)
      in (find (\<lambda>p. pico_id p = i) rows, d\<lparr>picos := rows\<rparr>))"

definition updatePico :: "timestamp \<Rightarrow> db \<Rightarrow> int \<Rightarrow> UpdatePico \<Rightarrow> error + (Pico option \<times> db)" where
  "updatePico now d i updates =
     (if \<not> int4 i then Inl DatabaseError
      else if (case set_pico_productId updates of None \<Rightarrow> False | Some v \<Rightarrow> \<not> references_product d v)
      then Inl DatabaseError
      else
        (case pico_set updates of
           None \<Rightarrow> Inl DatabaseError
         | Some cols \<Rightarrow> Inr (update_picos now d i cols)))"

definition deletePico :: "db \<Rightarrow> int \<Rightarrow> error + db" where
  "deletePico d i =
     (if \<not> int4 i then Inl DatabaseError
      else Inr (d\<lparr>picos := filter (\<lambda>p. pico_id p \<noteq> i) (picos d)\<rparr>))"

text \<open>
  \<open>createActivityLog\<close> names the columns of the schema module only. Once the migration
  has made \<open>item_type\<close> \<open>NOT NULL\<close> (it gives the column no default), the insert
  violates the constraint and the call throws.
\<close>

definition createActivityLog :: "timestamp \<Rightarrow> db \<Rightarrow> InsertActivityLog \<Rightarrow> error + (ActivityLog \<times> db)" where
  "createActivityLog now d insertActivity =
     (if item_type_not_null d then Inl DatabaseError
      else
        (case integer_column (new_activity_quantity insertActivity) of
           None \<Rightarrow> Inl DatabaseError
         | Some quantity \<Rightarrow>
             let activity = \<lparr>activity_id = activity_log_id_seq d,
                             activity_type = new_activity_type insertActivity,
                             activity_productCode = new_activity_productCode insertActivity,
                             activity_productDescription = new_activity_productDescription insertActivity,
                             activity_quantity = quantity,
                             activity_category = new_activity_category insertActivity,
                             activity_itemType = None,
                             activity_createdAt = Some now\<rparr>
             in Inr (activity, d\<lparr>activityLog := activityLog d @ [activity],
                                  activity_log_id_seq := activity_log_id_seq d + 1\<rparr>)))"

subsection \<open>Storage: users\<close>

definition getUser :: "db \<Rightarrow> int \<Rightarrow> User option" where
  "getUser d i = find (\<lambda>u. user_id u = i) (users d)"

definition getUserByUsername :: "db \<Rightarrow> string \<Rightarrow> User option" where
  "getUserByUsername d name = find (\<lambda>u. user_username u = name) (users d)"

text \<open>\<open>username\<close> is unique; \<open>isFirstLogin\<close> defaults to true.\<close>

definition createUser :: "timestamp \<Rightarrow> db \<Rightarrow> InsertUser \<Rightarrow> error + (User \<times> db)" where
  "createUser now d insertUser =
     (if list_ex (\<lambda>u. user_username u = new_user_username insertUser) (users d)
      then Inl DatabaseError
      else
        let u = \<lparr>user_id = users_id_seq d,
                  user_name = new_user_name insertUser,
                  user_nickname = new_user_nickname insertUser,
                  user_username = new_user_username insertUser,
                  user_password = new_user_password insertUser,
                  user_role = new_user_role insertUser,
                  user_isFirstLogin =
                    (case new_user_isFirstLogin insertUser of None \<Rightarrow> Some True | Some b \<Rightarrow> Some b),
                  user_createdAt = Some now,
                  user_updatedAt = Some now\<rparr>
        in Inr (u, d\<lparr>users := users d @ [u], users_id_seq := users_id_seq d + 1\<rparr>))"

definition set_user :: "timestamp \<Rightarrow> UpdateUser \<Rightarrow> userRoleEnum option \<Rightarrow> User \<Rightarrow> User" where
  "set_user now updates r u =
     u\<lparr>user_name := (case set_user_name updates of None \<Rightarrow> user_name u | Some v \<Rightarrow> v),
       user_nickname := (case set_user_nickname updates of None \<Rightarrow> user_nickname u | Some v \<Rightarrow> v),
       user_username := (case set_user_username updates of None \<Rightarrow> user_username u | Some v \<Rightarrow> v),
       user_password := (case set_user_password updates of None \<Rightarrow> user_password u | Some v \<Rightarrow> v),
       user_role := (case r of None \<Rightarrow> user_role u | Some v \<Rightarrow> v),
       user_isFirstLogin :=
         (case set_user_isFirstLogin updates of None \<Rightarrow> user_isFirstLogin u | Some v \<Rightarrow> Some v),
       user_updatedAt := Some now\<rparr>"

definition update_users :: "timestamp \<Rightarrow> db \<Rightarrow> int \<Rightarrow> UpdateUser \<Rightarrow> userRoleEnum option \<Rightarrow> User option \<times> db" where
  "update_users now d i updates r =
     (let rows = map (\<lambda>u. if user_id u = i then set_user now updates r u else u) (users d)
      in (find (\<lambda>u. user_id u = i) rows, d\<lparr>users := rows\<rparr>))"

definition updateUser :: "timestamp \<Rightarrow> db \<Rightarrow> int \<Rightarrow> UpdateUser \<Rightarrow> error + (User option \<times> db)" where
  "updateUser now d i updates =
     (if \<not> int4 i then Inl DatabaseError
      else if (case set_user_username updates of
            None \<Rightarrow> False
          | Some n \<Rightarrow> list_ex (\<lambda>u. user_id u = i) (users d)
                      \<and> list_ex (\<lambda>u. user_id u \<noteq> i \<and> user_username u = n) (users d))
      then Inl DatabaseError
      else
        (case set_user_role updates of
           None \<Rightarrow> Inr (update_users now d i updates None)
         | Some s \<Rightarrow>
             (case parse_userRole s of
                None \<Rightarrow> Inl DatabaseError
              | Some r \<Rightarrow> Inr (update_users now d i updates (Some r)))))"

definition deleteUser :: "db \<Rightarrow> int \<Rightarrow> error + db" where
  "deleteUser d i =
     (if \<not> int4 i then Inl DatabaseError
      else Inr (d\<lparr>users := filter (\<lambda>u. user_id u \<noteq> i) (users d)\<rparr>))"

definition getAllUsers :: "db \<Rightarrow> User list" where
  "getAllUsers d = sort_key user_name (users d)"

definition updateUserPassword :: "timestamp \<Rightarrow> db \<Rightarrow> int \<Rightarrow> string \<Rightarrow> db" where
  "updateUserPassword now d i hashedPassword =
     d\<lparr>users := map (\<lambda>u. if user_id u = i
                          then u\<lparr>user_password := hashedPassword, user_isFirstLogin := Some False,
                                 user_updatedAt := Some now\<rparr>
                          else u) (users d)\<rparr>"

subsection \<open>Storage: product writes\<close>

text \<open>\<open>code\<close> is unique.\<close>

definition createProduct :: "timestamp \<Rightarrow> db \<Rightarrow> InsertProduct \<Rightarrow> error + (Product \<times> db)" where
  "createProduct now d insertProduct =
     (if list_ex (\<lambda>p. product_code p = new_product_code insertProduct) (products d)
      then Inl DatabaseError
      else if \<not> (int4 (new_product_quantityBases insertProduct)
                  \<and> int4 (new_product_unitsPerBase insertProduct))
      then Inl DatabaseError
      else
        let p = \<lparr>product_id = products_id_seq d,
                  product_code = new_product_code insertProduct,
                  product_description = new_product_description insertProduct,
                  product_quantityBases = new_product_quantityBases insertProduct,
                  product_unitsPerBase = new_product_unitsPerBase insertProduct,
                  product_category = new_product_category insertProduct,
                  product_createdAt = Some now,
                  product_updatedAt = Some now\<rparr>
        in Inr (p, d\<lparr>products := products d @ [p], products_id_seq := products_id_seq d + 1\<rparr>))"

definition set_product :: "timestamp \<Rightarrow> UpdateProduct \<Rightarrow> categoryEnum option \<Rightarrow> Product \<Rightarrow> Product" where
  "set_product now updates c p =
     p\<lparr>product_code := (case set_product_code updates of None \<Rightarrow> product_code p | Some v \<Rightarrow> v),
       product_description :=
         (case set_product_description updates of None \<Rightarrow> product_description p | Some v \<Rightarrow> v),
       product_quantityBases :=
         (case set_product_quantityBases updates of None \<Rightarrow> product_quantityBases p | Some v \<Rightarrow> v),
       product_unitsPerBase :=
         (case set_product_unitsPerBase updates of None \<Rightarrow> product_unitsPerBase p | Some v \<Rightarrow> v),
       product_category := (case c of None \<Rightarrow> product_category p | Some v \<Rightarrow> v),
       product_updatedAt := Some now\<rparr>"

definition update_products ::
  "timestamp \<Rightarrow> db \<Rightarrow> int \<Rightarrow> UpdateProduct \<Rightarrow> categoryEnum option \<Rightarrow> Product option \<times> db" where
  "update_products now d i updates c =
     (let rows = map (\<lambda>p. if product_id p = i then set_product now updates c p else p) (products d)
      in (find (\<lambda>p. product_id p = i) rows, d\<lparr>products := rows\<rparr>))"

definition updateProduct :: "timestamp \<Rightarrow> db \<Rightarrow> int \<Rightarrow> UpdateProduct \<Rightarrow> error + (Product option \<times> db)" where
  "updateProduct now d i updates =
     (if \<not> int4 i then Inl DatabaseError
      else if (case set_product_code updates of
            None \<Rightarrow> False
          | Some c \<Rightarrow> list_ex (\<lambda>p. product_id p = i) (products d)
                      \<and> list_ex (\<lambda>p. product_id p \<noteq> i \<and> product_code p = c) (products d))
      then Inl DatabaseError
      else if (case set_product_quantityBases updates of None \<Rightarrow> False | Some v \<Rightarrow> \<not> int4 v)
              \<or> (case set_product_unitsPerBase updates of None \<Rightarrow> False | Some v \<Rightarrow> \<not> int4 v)
      then Inl DatabaseError
      else
        (case set_product_category updates of
           None \<Rightarrow> Inr (update_products now d i updates None)
         | Some s \<Rightarrow>
             (case parse_category s of
                None \<Rightarrow> Inl DatabaseError
              | Some c \<Rightarrow> Inr (update_products now d i updates (Some c)))))"

text \<open>A product that a pico or a stock row references cannot be deleted (foreign keys).\<close>

definition deleteProduct :: "db \<Rightarrow> int \<Rightarrow> error + db" where
  "deleteProduct d i =
     (if \<not> int4 i then Inl DatabaseError
      else if list_ex (\<lambda>p. product_id p = i) (products d)
         \<and> (list_ex (\<lambda>p. pico_productId p = i) (picos d)
            \<or> list_ex (\<lambda>s. stock_productId s = i) (paletizadoStock d))
      then Inl DatabaseError
      else Inr (d\<lparr>products := filter (\<lambda>p. product_id p \<noteq> i) (products d)\<rparr>))"

subsection \<open>Storage: paletizado stock\<close>

definition with_product :: "db \<Rightarrow> PaletizadoStock option \<Rightarrow> (PaletizadoStock \<times> Product) option" where
  "with_product d row =
     (case row of
        None \<Rightarrow> None
      | Some s \<Rightarrow>
          (case find (\<lambda>q. product_id q = stock_productId s) (products d) of
             None \<Rightarrow> None
           | Some q \<Rightarrow> Some (s, q)))"

definition getPaletizadoStock :: "db \<Rightarrow> int \<Rightarrow> error + (PaletizadoStock \<times> Product) option" where
  "getPaletizadoStock d i =
     (if \<not> int4 i then Inl DatabaseError
      else Inr (with_product d (find (\<lambda>s. stock_id s = i) (paletizadoStock d))))"

definition getPaletizadoStockByProductId :: "db \<Rightarrow> int \<Rightarrow> (PaletizadoStock \<times> Product) option" where
  "getPaletizadoStockByProductId d productId =
     with_product d (find (\<lambda>s. stock_productId s = productId) (paletizadoStock d))"

text \<open>\<open>quantity\<close> defaults to 0.\<close>

definition createPaletizadoStock ::
  "timestamp \<Rightarrow> db \<Rightarrow> InsertPaletizadoStock \<Rightarrow> error + (PaletizadoStock \<times> db)" where
  "createPaletizadoStock now d insertStock =
     (let quantity = (case new_stock_quantity insertStock of None \<Rightarrow> 0 | Some v \<Rightarrow> v)
      in
        if \<not> references_product d (new_stock_productId insertStock) then Inl DatabaseError
        else if \<not> int4 quantity then Inl DatabaseError
        else
          let stock = \<lparr>stock_id = paletizado_stock_id_seq d,
                        stock_productId = new_stock_productId insertStock,
                        stock_quantity = quantity,
                        stock_createdAt = Some now,
                        stock_updatedAt = Some now\<rparr>
          in Inr (stock, d\<lparr>paletizadoStock := paletizadoStock d @ [stock],
                            paletizado_stock_id_seq := paletizado_stock_id_seq d + 1\<rparr>))"

definition set_stock :: "timestamp \<Rightarrow> StockSet \<Rightarrow> PaletizadoStock \<Rightarrow> PaletizadoStock" where
  "set_stock now cols s =
     s\<lparr>stock_productId := (case stock_set_productId cols of None \<Rightarrow> stock_productId s | Some v \<Rightarrow> v),
       stock_quantity := (case stock_set_quantity cols of None \<Rightarrow> stock_quantity s | Some v \<Rightarrow> v),
       stock_updatedAt := Some now\<rparr>"

definition updatePaletizadoStock ::
  "timestamp \<Rightarrow> db \<Rightarrow> int \<Rightarrow> UpdatePaletizadoStock \<Rightarrow> error + (PaletizadoStock option \<times> db)" where
  "updatePaletizadoStock now d i updates =
     (if \<not> int4 i then Inl DatabaseError
      else if (case set_stock_productId updates of None \<Rightarrow> False | Some v \<Rightarrow> \<not> references_product d v)
      then Inl DatabaseError
      else
        (case set_key integer_column (set_stock_quantity updates) of
           None \<Rightarrow> Inl DatabaseError
         | Some q \<Rightarrow>
             let cols = \<lparr>stock_set_productId = set_stock_productId updates, stock_set_quantity = q\<rparr>;
                 rows = map (\<lambda>s. if stock_id s = i then set_stock now cols s else s) (paletizadoStock d)
             in Inr (find (\<lambda>s. stock_id s = i) rows, d\<lparr>paletizadoStock := rows\<rparr>)))"

definition deletePaletizadoStock :: "db \<Rightarrow> int \<Rightarrow> error + db" where
  "deletePaletizadoStock d i =
     (if \<not> int4 i then Inl DatabaseError
      else Inr (d\<lparr>paletizadoStock := filter (\<lambda>s. stock_id s \<noteq> i) (paletizadoStock d)\<rparr>))"

subsection \<open>Storage: dashboard statistics\<close>

text \<open>
  \<open>count(*)\<close> is a \<open>bigint\<close>, which the driver hands over as its decimal text; the type
  argument of \<open>sql<number>\<close> converts nothing. \<open>count || 0\<close> keeps every such text, also
  \<open>"0"\<close>, which is a non-empty string.
\<close>

definition count_star :: "'a list \<Rightarrow> prim" where
  "count_star rows = PStr (decimal (length rows))"

record DashboardStats =
  totalPicos :: prim
  totalPaletizados :: prim
  altaRotacao :: prim
  baixaRotacao :: prim
  recentEntries :: "ActivityLog list"
  recentExits :: "ActivityLog list"

text \<open>\<open>orderBy(desc(activityLog.createdAt)).limit(n)\<close>; a \<open>NULL\<close> date sorts first.\<close>

definition recent :: "nat \<Rightarrow> ActivityLog list \<Rightarrow> ActivityLog list" where
  "recent n rows = take n (sort_key (\<lambda>a. map_option uminus (activity_createdAt a)) rows)"

definition getDashboardStats :: "db \<Rightarrow> DashboardStats" where
  "getDashboardStats d =
     \<lparr>totalPicos = js_or (count_star (picos d)) (PNum 0),
      totalPaletizados = js_or (count_star (paletizadoStock d)) (PNum 0),
      altaRotacao =
        js_or (count_star (filter (\<lambda>p. product_category p = alta_rotacao) (products d))) (PNum 0),
      baixaRotacao =
        js_or (count_star (filter (\<lambda>p. product_category p = baixa_rotacao) (products d))) (PNum 0),
      recentEntries = recent 5 (filter (\<lambda>a. activity_type a = ''entry'') (activityLog d)),
      recentExits = recent 5 (filter (\<lambda>a. activity_type a = ''exit'') (activityLog d))\<rparr>"

subsection \<open>Sessions and middleware\<close>

record session =
  userId :: "int option"
  user :: "User option"

text \<open>\<open>requireAuth\<close> lets the request through when \<open>req.session.userId\<close> is truthy.\<close>

definition requireAuth :: "session \<Rightarrow> bool" where
  "requireAuth sess = (case userId sess of None \<Rightarrow> False | Some i \<Rightarrow> i \<noteq> 0)"

definition unauthorized :: response where
  "unauthorized = res_status_json 401 (message ''Unauthorized'')"

text \<open>\<open>requireAdmin\<close> wants a session user whose role is \<open>administrador\<close>.\<close>

definition requireAdmin :: "session \<Rightarrow> bool" where
  "requireAdmin sess = (case user sess of None \<Rightarrow> False | Some u \<Rightarrow> user_role u = administrador)"

definition admin_required :: response where
  "admin_required = res_status_json 403 (message ''Admin access required'')"

text \<open>
  The \<open>bcrypt\<close> library is a parameter: \<open>bcrypt_hash\<close> is \<open>bcrypt.hash\<close> with the salt it
  draws for the call, \<open>bcrypt_compare\<close> is \<open>bcrypt.compare\<close>.
\<close>

record bcrypt =
  bcrypt_hash :: "string \<Rightarrow> nat \<Rightarrow> string"
  bcrypt_compare :: "string \<Rightarrow> string \<Rightarrow> bool"

subsection \<open>Rows as JavaScript objects\<close>

definition js_date :: "timestamp option \<Rightarrow> jsval" where
  "js_date t = (case t of None \<Rightarrow> JNull | Some v \<Rightarrow> JDate v)"

definition js_category :: "categoryEnum \<Rightarrow> jsval" where
  "js_category c = JStr (case c of alta_rotacao \<Rightarrow> ''alta_rotacao'' | baixa_rotacao \<Rightarrow> ''baixa_rotacao'')"

definition js_role :: "userRoleEnum \<Rightarrow> jsval" where
  "js_role r = JStr (case r of administrador \<Rightarrow> ''administrador'' | armazenista \<Rightarrow> ''armazenista'')"

definition user_fields :: "User \<Rightarrow> (string \<times> jsval) list" where
  "user_fields u =
     [(''id'', JNum (user_id u)),
      (''name'', JStr (user_name u)),
      (''nickname'', JStr (user_nickname u)),
      (''username'', JStr (user_username u)),
      (''password'', JStr (user_password u)),
      (''role'', js_role (user_role u)),
      (''isFirstLogin'', (case user_isFirstLogin u of None \<Rightarrow> JNull | Some b \<Rightarrow> JBool b)),
      (''createdAt'', js_date (user_createdAt u)),
      (''updatedAt'', js_date (user_updatedAt u))]"

text \<open>
  \<open>{ ...user, password: undefined }\<close>: the properties of \<open>user\<close> (none when it is
  \<open>undefined\<close>), with \<open>password\<close> set to \<open>undefined\<close>.
\<close>

definition without_password :: "User option \<Rightarrow> jsval" where
  "without_password u =
     JObj (AList.update ''password'' JUndefined (case u of None \<Rightarrow> [] | Some v \<Rightarrow> user_fields v))"

definition product_obj :: "Product \<Rightarrow> jsval" where
  "product_obj p = JObj
     [(''id'', JNum (product_id p)),
      (''code'', JStr (product_code p)),
      (''description'', JStr (product_description p)),
      (''quantityBases'', JNum (product_quantityBases p)),
      (''unitsPerBase'', JNum (product_unitsPerBase p)),
      (''category'', js_category (product_category p)),
      (''createdAt'', js_date (product_createdAt p)),
      (''updatedAt'', js_date (product_updatedAt p))]"

definition stock_obj :: "PaletizadoStock \<Rightarrow> jsval" where
  "stock_obj s = JObj
     [(''id'', JNum (stock_id s)),
      (''productId'', JNum (stock_productId s)),
      (''quantity'', JNum (stock_quantity s)),
      (''createdAt'', js_date (stock_createdAt s)),
      (''updatedAt'', js_date (stock_updatedAt s))]"

definition activity_obj :: "ActivityLog \<Rightarrow> jsval" where
  "activity_obj a = JObj
     [(''id'', JNum (activity_id a)),
      (''type'', JStr (activity_type a)),
      (''productCode'', JStr (activity_productCode a)),
      (''productDescription'', JStr (activity_productDescription a)),
      (''quantity'', JNum (activity_quantity a)),
      (''category'', js_category (activity_category a)),
      (''createdAt'', js_date (activity_createdAt a))]"

definition stats_obj :: "DashboardStats \<Rightarrow> jsval" where
  "stats_obj s = JObj
     [(''totalPicos'', js_prim (totalPicos s)),
      (''totalPaletizados'', js_prim (totalPaletizados s)),
      (''altaRotacao'', js_prim (altaRotacao s)),
      (''baixaRotacao'', js_prim (baixaRotacao s)),
      (''recentEntries'', JArr (map activity_obj (recentEntries s))),
      (''recentExits'', JArr (map activity_obj (recentExits s)))]"

definition pico_obj :: "Pico \<Rightarrow> jsval" where
  "pico_obj p = JObj
     [(''id'', JNum (pico_id p)),
      (''productId'', JNum (pico_productId p)),
      (''bases'', JNum (pico_bases p)),
      (''looseUnits'', JNum (pico_looseUnits p)),
      (''totalUnits'', JNum (pico_totalUnits p)),
      (''towerLocation'', JStr (pico_towerLocation p)),
      (''createdAt'', js_date (pico_createdAt p)),
      (''updatedAt'', js_date (pico_updatedAt p))]"

subsection \<open>Pico routes\<close>

record pico_body =
  req_productCode :: prim
  req_bases :: prim
  req_looseUnits :: prim
  req_towerLocation :: prim

definition post_api_picos :: "timestamp \<Rightarrow> db \<Rightarrow> session \<Rightarrow> pico_body \<Rightarrow> response \<times> db" where
  "post_api_picos now d sess req =
     (if \<not> requireAuth sess then (unauthorized, d)
      else
        (case getProductByCode d (req_productCode req) of
           None \<Rightarrow> (res_status_json 404 (message ''Product not found''), d)
         | Some product \<Rightarrow>
             let totalUnits =
                   js_plus (js_times (req_bases req) (PNum (product_unitsPerBase product)))
                     (req_looseUnits req)
             in
             (case insertPicoSchema (product_id product) (req_bases req) (req_looseUnits req)
                     totalUnits (req_towerLocation req) of
                None \<Rightarrow> (res_status_json 400 (message ''Invalid pico data''), d)
              | Some picoData \<Rightarrow>
                  (case createPico now d picoData of
                     Inl e \<Rightarrow> (res_status_json 400 (message ''Invalid pico data''), d)
                   | Inr (pico, d1) \<Rightarrow>
                       (case createActivityLog now d1
                               \<lparr>new_activity_type = ''entry'',
                                new_activity_productCode = product_code product,
                                new_activity_productDescription = product_description product,
                                new_activity_quantity = totalUnits,
                                new_activity_category = product_category product\<rparr> of
                          Inl e \<Rightarrow> (res_status_json 400 (message ''Invalid pico data''), d1)
                        | Inr (activity, d2) \<Rightarrow> (res_json (pico_obj pico), d2))))))"

text \<open>
  The body of \<open>PUT /api/picos/:id\<close> goes to the arithmetic and to \<open>updatePico\<close> as it
  came: no schema is parsed. \<open>...(towerLocation && { towerLocation })\<close> sets the key for
  a truthy value only.
\<close>

definition put_api_picos :: "timestamp \<Rightarrow> db \<Rightarrow> session \<Rightarrow> int \<Rightarrow> pico_body \<Rightarrow> response \<times> db" where
  "put_api_picos now d sess i req =
     (if \<not> requireAuth sess then (unauthorized, d)
      else
        (case getPico d i of
           Inl e \<Rightarrow> (res_status_json 400 (message ''Failed to update pico''), d)
         | Inr None \<Rightarrow> (res_status_json 404 (message ''Pico not found''), d)
         | Inr (Some (existingPico, product)) \<Rightarrow>
             let totalUnits =
                   js_plus (js_times (req_bases req) (PNum (product_unitsPerBase product)))
                     (req_looseUnits req);
                 updates = \<lparr>set_pico_productId = None,
                            set_pico_bases = req_bases req,
                            set_pico_looseUnits = req_looseUnits req,
                            set_pico_totalUnits = totalUnits,
                            set_pico_towerLocation =
                              (if truthy (req_towerLocation req) then req_towerLocation req
                               else PUndefined)\<rparr>
             in (case updatePico now d i updates of
                   Inl e \<Rightarrow> (res_status_json 400 (message ''Failed to update pico''), d)
                 | Inr (pico, d1) \<Rightarrow>
                     (res_json (case pico of None \<Rightarrow> JUndefined | Some p \<Rightarrow> pico_obj p), d1))))"

definition delete_api_picos :: "timestamp \<Rightarrow> db \<Rightarrow> session \<Rightarrow> int \<Rightarrow> response \<times> db" where
  "delete_api_picos now d sess i =
     (if \<not> requireAuth sess then (unauthorized, d)
      else
        (case getPico d i of
           Inl e \<Rightarrow> (res_status_json 400 (message ''Failed to eliminate pico''), d)
         | Inr None \<Rightarrow> (res_status_json 404 (message ''Pico not found''), d)
         | Inr (Some (pico, product)) \<Rightarrow>
             (case deletePico d i of
                Inl e \<Rightarrow> (res_status_json 400 (message ''Failed to eliminate pico''), d)
              | Inr d1 \<Rightarrow>
                  (case createActivityLog now d1
                          \<lparr>new_activity_type = ''exit'',
                           new_activity_productCode = product_code product,
                           new_activity_productDescription = product_description product,
                           new_activity_quantity = PNum (pico_totalUnits pico),
                           new_activity_category = product_category product\<rparr> of
                     Inl e \<Rightarrow> (res_status_json 400 (message ''Failed to eliminate pico''), d1)
                   | Inr (activity, d2) \<Rightarrow>
                       (res_json (message ''Pico eliminated successfully''), d2)))))"

subsection \<open>Paletizado stock routes\<close>

record stock_body =
  req_stock_productCode :: prim
  req_quantity :: prim

definition entry_log :: "Product \<Rightarrow> prim \<Rightarrow> InsertActivityLog" where
  "entry_log product quantity =
     \<lparr>new_activity_type = ''entry'',
      new_activity_productCode = product_code product,
      new_activity_productDescription = product_description product,
      new_activity_quantity = quantity,
      new_activity_category = product_category product\<rparr>"

text \<open>
  The first half of the handler: the row is updated when there is one, inserted
  otherwise. Only the insert parses a schema; the update adds the quantity of the body,
  as it came, to the quantity of the row.
\<close>

definition upsert_stock ::
  "timestamp \<Rightarrow> db \<Rightarrow> Product \<Rightarrow> prim \<Rightarrow> error + (PaletizadoStock option \<times> db)" where
  "upsert_stock now d product quantity =
     (case getPaletizadoStockByProductId d (product_id product) of
        Some (existingStock, p) \<Rightarrow>
          updatePaletizadoStock now d (stock_id existingStock)
            \<lparr>set_stock_productId = None,
             set_stock_quantity = js_plus (PNum (stock_quantity existingStock)) quantity\<rparr>
      | None \<Rightarrow>
          (case insertPaletizadoStockSchema (product_id product) quantity of
             None \<Rightarrow> Inl ZodError
           | Some stockData \<Rightarrow>
               (case createPaletizadoStock now d stockData of
                  Inl e \<Rightarrow> Inl e
                | Inr (stock, d1) \<Rightarrow> Inr (Some stock, d1))))"

definition post_api_paletizado_stock ::
  "timestamp \<Rightarrow> db \<Rightarrow> session \<Rightarrow> stock_body \<Rightarrow> response \<times> db" where
  "post_api_paletizado_stock now d sess req =
     (if \<not> requireAuth sess then (unauthorized, d)
      else
        (case getProductByCode d (req_stock_productCode req) of
           None \<Rightarrow> (res_status_json 404 (message ''Product not found''), d)
         | Some product \<Rightarrow>
             (case upsert_stock now d product (req_quantity req) of
                Inl e \<Rightarrow> (res_status_json 400 (message ''Invalid stock data''), d)
              | Inr (stock, d1) \<Rightarrow>
                  (case createActivityLog now d1 (entry_log product (req_quantity req)) of
                     Inl e \<Rightarrow> (res_status_json 400 (message ''Invalid stock data''), d1)
                   | Inr (activity, d2) \<Rightarrow>
                       (res_json (case stock of None \<Rightarrow> JUndefined | Some s \<Rightarrow> stock_obj s), d2)))))"

definition put_api_paletizado_stock ::
  "timestamp \<Rightarrow> db \<Rightarrow> session \<Rightarrow> int \<Rightarrow> prim \<Rightarrow> response \<times> db" where
  "put_api_paletizado_stock now d sess i quantity =
     (if \<not> requireAuth sess then (unauthorized, d)
      else
        (case updatePaletizadoStock now d i \<lparr>set_stock_productId = None, set_stock_quantity = quantity\<rparr> of
           Inl e \<Rightarrow> (res_status_json 400 (message ''Failed to update stock''), d)
         | Inr (stock, d1) \<Rightarrow>
             (res_json (case stock of None \<Rightarrow> JUndefined | Some s \<Rightarrow> stock_obj s), d1)))"

definition delete_api_paletizado_stock :: "timestamp \<Rightarrow> db \<Rightarrow> session \<Rightarrow> int \<Rightarrow> response \<times> db" where
  "delete_api_paletizado_stock now d sess i =
     (if \<not> requireAuth sess then (unauthorized, d)
      else
        (case getPaletizadoStock d i of
           Inl e \<Rightarrow> (res_status_json 400 (message ''Failed to eliminate stock''), d)
         | Inr None \<Rightarrow> (res_status_json 404 (message ''Stock not found''), d)
         | Inr (Some (stock, product)) \<Rightarrow>
             (case deletePaletizadoStock d i of
                Inl e \<Rightarrow> (res_status_json 400 (message ''Failed to eliminate stock''), d)
              | Inr d1 \<Rightarrow>
                  (case createActivityLog now d1
                          \<lparr>new_activity_type = ''exit'',
                           new_activity_productCode = product_code product,
                           new_activity_productDescription = product_description product,
                           new_activity_quantity = PNum (stock_quantity stock),
                           new_activity_category = product_category product\<rparr> of
                     Inl e \<Rightarrow> (res_status_json 400 (message ''Failed to eliminate stock''), d1)
                   | Inr (activity, d2) \<Rightarrow>
                       (res_json (message ''Stock eliminated successfully''), d2)))))"

subsection \<open>Authentication routes\<close>

definition credenciais_invalidas :: string where
  "credenciais_invalidas = ''Credenciais inv'' @ [CHR 0xC3, CHR 0xA1] @ ''lidas''"

definition post_api_auth_login :: "bcrypt \<Rightarrow> db \<Rightarrow> session \<Rightarrow> login_body \<Rightarrow> response \<times> session" where
  "post_api_auth_login bc d sess req =
     (case loginSchema req of
        None \<Rightarrow> (res_status_json 400 (message ''Invalid request data''), sess)
      | Some b \<Rightarrow>
          (case getUserByUsername d (login_username b) of
             None \<Rightarrow> (res_status_json 401 (message credenciais_invalidas), sess)
           | Some u \<Rightarrow>
               if \<not> bcrypt_compare bc (login_password b) (user_password u)
               then (res_status_json 401 (message credenciais_invalidas), sess)
               else
                 (res_json (JObj [(''user'', without_password (Some u)),
                                  (''isFirstLogin'',
                                   (case user_isFirstLogin u of None \<Rightarrow> JNull | Some f \<Rightarrow> JBool f))]),
                  sess\<lparr>userId := Some (user_id u), user := Some u\<rparr>)))"

definition post_api_auth_change_password ::
  "timestamp \<Rightarrow> bcrypt \<Rightarrow> db \<Rightarrow> session \<Rightarrow> password_body \<Rightarrow> response \<times> db \<times> session" where
  "post_api_auth_change_password now bc d sess req =
     (case userId sess of
        None \<Rightarrow> (unauthorized, d, sess)
      | Some uid \<Rightarrow>
          if uid = 0 then (unauthorized, d, sess)
          else
            (case passwordChangeSchema req of
               None \<Rightarrow> (res_status_json 400 (message ''Invalid request data''), d, sess)
             | Some b \<Rightarrow>
                 let hashedPassword = bcrypt_hash bc (newPassword b) 10;
                     d1 = updateUserPassword now d uid hashedPassword;
                     updatedUser = getUser d1 uid
                 in (res_json (message ''Senha alterada com sucesso''), d1,
                     sess\<lparr>user := updatedUser\<rparr>)))"

text \<open>\<open>req.session.destroy\<close> leaves an empty session.\<close>

definition post_api_auth_logout :: "session \<Rightarrow> response \<times> session" where
  "post_api_auth_logout sess =
     (res_json (message ''Logged out successfully''), \<lparr>userId = None, user = None\<rparr>)"

definition get_api_auth_user :: "db \<Rightarrow> session \<Rightarrow> response" where
  "get_api_auth_user d sess =
     (case userId sess of
        None \<Rightarrow> unauthorized
      | Some uid \<Rightarrow>
          if uid = 0 then unauthorized
          else
            (case getUser d uid of
               None \<Rightarrow> res_status_json 404 (message ''User not found'')
             | Some u \<Rightarrow> res_json (without_password (Some u))))"

subsection \<open>User routes\<close>

definition get_api_users :: "db \<Rightarrow> session \<Rightarrow> response" where
  "get_api_users d sess =
     (if \<not> requireAuth sess then unauthorized
      else if \<not> requireAdmin sess then admin_required
      else res_json (JArr (map (\<lambda>u. without_password (Some u)) (getAllUsers d))))"

definition post_api_users :: "timestamp \<Rightarrow> bcrypt \<Rightarrow> db \<Rightarrow> session \<Rightarrow> user_body \<Rightarrow> response \<times> db" where
  "post_api_users now bc d sess req =
     (if \<not> requireAuth sess then (unauthorized, d)
      else if \<not> requireAdmin sess then (admin_required, d)
      else
        (case insertUserSchema req of
           None \<Rightarrow> (res_status_json 400 (message ''Invalid user data''), d)
         | Some userData \<Rightarrow>
             let hashedPassword = bcrypt_hash bc (new_user_password userData) 10 in
             (case createUser now d (userData\<lparr>new_user_password := hashedPassword\<rparr>) of
                Inl e \<Rightarrow> (res_status_json 400 (message ''Invalid user data''), d)
              | Inr (u, d1) \<Rightarrow> (res_json (without_password (Some u)), d1))))"

text \<open>\<open>if (updates.password)\<close>: only a non-empty password is hashed.\<close>

definition put_api_users ::
  "timestamp \<Rightarrow> bcrypt \<Rightarrow> db \<Rightarrow> session \<Rightarrow> int \<Rightarrow> UpdateUser \<Rightarrow> response \<times> db" where
  "put_api_users now bc d sess i req =
     (if \<not> requireAuth sess then (unauthorized, d)
      else if \<not> requireAdmin sess then (admin_required, d)
      else
        let updates =
              (case set_user_password req of
                 None \<Rightarrow> req
               | Some p \<Rightarrow> if p = [] then req else req\<lparr>set_user_password := Some (bcrypt_hash bc p 10)\<rparr>)
        in (case updateUser now d i updates of
              Inl e \<Rightarrow> (res_status_json 400 (message ''Failed to update user''), d)
            | Inr (u, d1) \<Rightarrow> (res_json (without_password u), d1)))"

definition delete_api_users :: "db \<Rightarrow> session \<Rightarrow> int \<Rightarrow> response \<times> db" where
  "delete_api_users d sess i =
     (if \<not> requireAuth sess then (unauthorized, d)
      else if \<not> requireAdmin sess then (admin_required, d)
      else
        (case deleteUser d i of
           Inl e \<Rightarrow> (res_status_json 400 (message ''Failed to delete user''), d)
         | Inr d1 \<Rightarrow> (res_json (message ''User deleted successfully''), d1)))"

subsection \<open>Product routes\<close>

definition post_api_products :: "timestamp \<Rightarrow> db \<Rightarrow> session \<Rightarrow> product_body \<Rightarrow> response \<times> db" where
  "post_api_products now d sess req =
     (if \<not> requireAuth sess then (unauthorized, d)
      else if \<not> requireAdmin sess then (admin_required, d)
      else
        (case insertProductSchema req of
           None \<Rightarrow> (res_status_json 400 (message ''Invalid product data''), d)
         | Some productData \<Rightarrow>
             (case createProduct now d productData of
                Inl e \<Rightarrow> (res_status_json 400 (message ''Invalid product data''), d)
              | Inr (p, d1) \<Rightarrow> (res_json (product_obj p), d1))))"

definition put_api_products ::
  "timestamp \<Rightarrow> db \<Rightarrow> session \<Rightarrow> int \<Rightarrow> UpdateProduct \<Rightarrow> response \<times> db" where
  "put_api_products now d sess i updates =
     (if \<not> requireAuth sess then (unauthorized, d)
      else if \<not> requireAdmin sess then (admin_required, d)
      else
        (case updateProduct now d i updates of
           Inl e \<Rightarrow> (res_status_json 400 (message ''Failed to update product''), d)
         | Inr (p, d1) \<Rightarrow>
             (res_json (case p of None \<Rightarrow> JUndefined | Some q \<Rightarrow> product_obj q), d1)))"

definition delete_api_products :: "db \<Rightarrow> session \<Rightarrow> int \<Rightarrow> response \<times> db" where
  "delete_api_products d sess i =
     (if \<not> requireAuth sess then (unauthorized, d)
      else if \<not> requireAdmin sess then (admin_required, d)
      else
        (case deleteProduct d i of
           Inl e \<Rightarrow> (res_status_json 400 (message ''Failed to delete product''), d)
         | Inr d1 \<Rightarrow> (res_json (message ''Product deleted successfully''), d1)))"

subsection \<open>Dashboard route\<close>

definition get_api_dashboard_stats :: "db \<Rightarrow> session \<Rightarrow> response" where
  "get_api_dashboard_stats d sess =
     (if \<not> requireAuth sess then unauthorized
      else res_json (stats_obj (getDashboardStats d)))"

subsection \<open>Server start\<close>

definition empty_db :: db where
  "empty_db =
     \<lparr>users = [], products = [], picos = [], paletizadoStock = [], activityLog = [],
      users_id_seq = 1, products_id_seq = 1, picos_id_seq = 1, paletizado_stock_id_seq = 1,
      activity_log_id_seq = 1, item_type_not_null = False\<rparr>"



subsection \<open>Requests one after the other\<close>

text \<open>
  The routes that write, and the reading routes of the properties below. (The list and
  search routes of products, picos and stock only read.)
\<close>

datatype request =
    POST_auth_login login_body
  | POST_auth_change_password password_body
  | POST_auth_logout
  | GET_auth_user
  | GET_users
  | POST_users user_body
  | PUT_users int UpdateUser
  | DELETE_users int
  | POST_products product_body
  | PUT_products int UpdateProduct
  | DELETE_products int
  | POST_picos pico_body
  | PUT_picos int pico_body
  | DELETE_picos int
  | POST_paletizado_stock stock_body
  | PUT_paletizado_stock int prim
  | DELETE_paletizado_stock int
  | GET_dashboard_stats

fun handle :: "timestamp \<Rightarrow> bcrypt \<Rightarrow> db \<Rightarrow> session \<Rightarrow> request \<Rightarrow> response \<times> db \<times> session" where
  "handle now bc d sess (POST_auth_login b) =
     (case post_api_auth_login bc d sess b of (r, sess') \<Rightarrow> (r, d, sess'))"
| "handle now bc d sess (POST_auth_change_password b) = post_api_auth_change_password now bc d sess b"
| "handle now bc d sess POST_auth_logout =
     (case post_api_auth_logout sess of (r, sess') \<Rightarrow> (r, d, sess'))"
| "handle now bc d sess GET_auth_user = (get_api_auth_user d sess, d, sess)"
| "handle now bc d sess GET_users = (get_api_users d sess, d, sess)"
| "handle now bc d sess (POST_users b) =
     (case post_api_users now bc d sess b of (r, d') \<Rightarrow> (r, d', sess))"
| "handle now bc d sess (PUT_users i b) =
     (case put_api_users now bc d sess i b of (r, d') \<Rightarrow> (r, d', sess))"
| "handle now bc d sess (DELETE_users i) =
     (case delete_api_users d sess i of (r, d') \<Rightarrow> (r, d', sess))"
| "handle now bc d sess (POST_products b) =
     (case post_api_products now d sess b of (r, d') \<Rightarrow> (r, d', sess))"
| "handle now bc d sess (PUT_products i b) =
     (case put_api_products now d sess i b of (r, d') \<Rightarrow> (r, d', sess))"
| "handle now bc d sess (DELETE_products i) =
     (case delete_api_products d sess i of (r, d') \<Rightarrow> (r, d', sess))"
| "handle now bc d sess (POST_picos b) =
     (case post_api_picos now d sess b of (r, d') \<Rightarrow> (r, d', sess))"
| "handle now bc d sess (PUT_picos i b) =
     (case put_api_picos now d sess i b of (r, d') \<Rightarrow> (r, d', sess))"
| "handle now bc d sess (DELETE_picos i) =
     (case delete_api_picos now d sess i of (r, d') \<Rightarrow> (r, d', sess))"
| "handle now bc d sess (POST_paletizado_stock b) =
     (case post_api_paletizado_stock now d sess b of (r, d') \<Rightarrow> (r, d', sess))"
| "handle now bc d sess (PUT_paletizado_stock i q) =
     (case put_api_paletizado_stock now d sess i q of (r, d') \<Rightarrow> (r, d', sess))"
| "handle now bc d sess (DELETE_paletizado_stock i) =
     (case delete_api_paletizado_stock now d sess i of (r, d') \<Rightarrow> (r, d', sess))"
| "handle now bc d sess GET_dashboard_stats = (get_api_dashboard_stats d sess, d, sess)"

text \<open>
  A sequential execution: each step is a request with the time it arrives, the
  \<open>bcrypt\<close> of that call and the session its cookie selects. The database is threaded
  through; the sessions are whatever the steps bring.
\<close>

record step =
  step_now :: timestamp
  step_bcrypt :: bcrypt
  step_session :: session
  step_request :: request

fun run :: "db \<Rightarrow> step list \<Rightarrow> db" where
  "run d [] = d"
| "run d (s # ss) =
     run (fst (snd (handle (step_now s) (step_bcrypt s) d (step_session s) (step_request s)))) ss"

subsection \<open>The rows the handlers write\<close>

text \<open>Names for the rows that the statements below speak about.\<close>

definition put_pico :: "timestamp \<Rightarrow> int \<Rightarrow> int \<Rightarrow> int \<Rightarrow> Pico \<Rightarrow> Pico" where
  "put_pico now bases looseUnits totalUnits p =
     p\<lparr>pico_bases := bases,
       pico_looseUnits := looseUnits,
       pico_totalUnits := totalUnits,
       pico_updatedAt := Some now\<rparr>"

definition restock :: "timestamp \<Rightarrow> int \<Rightarrow> PaletizadoStock \<Rightarrow> PaletizadoStock" where
  "restock now quantity s = s\<lparr>stock_quantity := quantity, stock_updatedAt := Some now\<rparr>"

definition new_stock :: "timestamp \<Rightarrow> db \<Rightarrow> Product \<Rightarrow> int \<Rightarrow> PaletizadoStock" where
  "new_stock now d product quantity =
     \<lparr>stock_id = paletizado_stock_id_seq d,
      stock_productId = product_id product,
      stock_quantity = quantity,
      stock_createdAt = Some now,
      stock_updatedAt = Some now\<rparr>"

text \<open>At most one stock row per product.\<close>

definition stock_unique :: "db \<Rightarrow> bool" where
  "stock_unique d = distinct (map stock_productId (paletizadoStock d))"

subsection \<open>A small warehouse\<close>

text \<open>
  The example of the specification: product \<open>P1\<close> with five units per base, and a pico of
  two bases and three loose units in tower \<open>01\<close>.
\<close>

definition ex_product :: Product where
  "ex_product =
     \<lparr>product_id = 1, product_code = ''P1'', product_description = ''Widget'',
      product_quantityBases = 10, product_unitsPerBase = 5, product_category = alta_rotacao,
      product_createdAt = Some 0, product_updatedAt = Some 0\<rparr>"

definition ex_db :: db where
  "ex_db = empty_db\<lparr>products := [ex_product], products_id_seq := 2\<rparr>"

definition ex_session :: session where
  "ex_session = \<lparr>userId = Some 1, user = None\<rparr>"

definition ex_pico_req :: pico_body where
  "ex_pico_req =
     \<lparr>req_productCode = PStr ''P1'', req_bases = PNum 2, req_looseUnits = PNum 3,
      req_towerLocation = PStr ''01''\<rparr>"

definition ex_pico :: Pico where
  "ex_pico =
     \<lparr>pico_id = 1, pico_productId = 1, pico_bases = 2, pico_looseUnits = 3, pico_totalUnits = 13,
      pico_towerLocation = ''01'', pico_createdAt = Some 7, pico_updatedAt = Some 7\<rparr>"

definition ex_db_pico :: db where
  "ex_db_pico = ex_db\<lparr>picos := [ex_pico], picos_id_seq := 2\<rparr>"

definition ex_put_req :: pico_body where
  "ex_put_req =
     \<lparr>req_productCode = PUndefined, req_bases = PNum 4, req_looseUnits = PNum 1,
      req_towerLocation = PUndefined\<rparr>"

text \<open>A body whose \<open>totalUnits\<close>, \<open>429496729 * 5 + 3\<close>, is the first integer out of range.\<close>

definition ex_put_req_large :: pico_body where
  "ex_put_req_large =
     \<lparr>req_productCode = PUndefined, req_bases = PNum 429496729, req_looseUnits = PNum 3,
      req_towerLocation = PUndefined\<rparr>"

text \<open>The bodies \<open>{"bases": "2", "looseUnits": "3"}\<close> and \<open>{"bases": 2, "looseUnits": 3}\<close>.\<close>

definition ex_put_req_strings :: pico_body where
  "ex_put_req_strings =
     \<lparr>req_productCode = PUndefined, req_bases = PStr ''2'', req_looseUnits = PStr ''3'',
      req_towerLocation = PUndefined\<rparr>"

definition ex_put_req_numbers :: pico_body where
  "ex_put_req_numbers =
     \<lparr>req_productCode = PUndefined, req_bases = PNum 2, req_looseUnits = PNum 3,
      req_towerLocation = PUndefined\<rparr>"

definition ex_post_req_strings :: pico_body where
  "ex_post_req_strings =
     \<lparr>req_productCode = PStr ''P1'', req_bases = PStr ''2'', req_looseUnits = PStr ''3'',
      req_towerLocation = PStr ''01''\<rparr>"

definition ex_stock_req :: stock_body where
  "ex_stock_req = \<lparr>req_stock_productCode = PStr ''P1'', req_quantity = PNum 4\<rparr>"

definition ex_stock :: PaletizadoStock where
  "ex_stock =
     \<lparr>stock_id = 1, stock_productId = 1, stock_quantity = 6,
      stock_createdAt = Some 3, stock_updatedAt = Some 3\<rparr>"

definition ex_db_stock :: db where
  "ex_db_stock = ex_db\<lparr>paletizadoStock := [ex_stock], paletizado_stock_id_seq := 2\<rparr>"

text \<open>A stock row that holds the largest quantity of the column, and a request for one more.\<close>

definition ex_db_stock_full :: db where
  "ex_db_stock_full =
     ex_db\<lparr>paletizadoStock := [ex_stock\<lparr>stock_quantity := 2147483647\<rparr>],
           paletizado_stock_id_seq := 2\<rparr>"

definition ex_stock_req_one :: stock_body where
  "ex_stock_req_one = \<lparr>req_stock_productCode = PStr ''P1'', req_quantity = PNum 1\<rparr>"

definition ex_new_stock :: PaletizadoStock where
  "ex_new_stock =
     \<lparr>stock_id = 1, stock_productId = 1, stock_quantity = 4,
      stock_createdAt = Some 7, stock_updatedAt = Some 7\<rparr>"

definition ex_db_migrated :: db where
  "ex_db_migrated = add_item_type_to_activity_log ex_db"

definition ex_db_pico_migrated :: db where
  "ex_db_pico_migrated = add_item_type_to_activity_log ex_db_pico"

definition ex_put_req_tower :: "string \<Rightarrow> pico_body" where
  "ex_put_req_tower t =
     \<lparr>req_productCode = PUndefined, req_bases = PNum 2, req_looseUnits = PNum 3,
      req_towerLocation = PStr t\<rparr>"

definition ex_post_req_tower :: "string \<Rightarrow> pico_body" where
  "ex_post_req_tower t =
     \<lparr>req_productCode = PStr ''P1'', req_bases = PNum 2, req_looseUnits = PNum 3,
      req_towerLocation = PStr t\<rparr>"

text \<open>Three products: two of high rotation, one of low rotation.\<close>

definition ex_products :: "Product list" where
  "ex_products =
     [ex_product,
      ex_product\<lparr>product_id := 2, product_code := ''P2'', product_category := baixa_rotacao\<rparr>,
      ex_product\<lparr>product_id := 3, product_code := ''P3''\<rparr>]"

definition ex_db_products :: db where
  "ex_db_products = empty_db\<lparr>products := ex_products, products_id_seq := 4\<rparr>"

text \<open>A stand-in for \<open>bcrypt\<close> in the examples: the hash is the password behind a mark.\<close>

definition ex_bcrypt :: bcrypt where
  "ex_bcrypt = \<lparr>bcrypt_hash = (\<lambda>p rounds. CHR ''#'' # p), bcrypt_compare = (\<lambda>p h. h = CHR ''#'' # p)\<rparr>"

definition ex_admin :: User where
  "ex_admin =
     \<lparr>user_id = 1, user_name = ''Administrador'', user_nickname = ''Admin'',
      user_username = ''admin'', user_password = ''#admin'', user_role = administrador,
      user_isFirstLogin = Some True, user_createdAt = Some 0, user_updatedAt = Some 0\<rparr>"

definition ex_db_admin :: db where
  "ex_db_admin = empty_db\<lparr>users := [ex_admin], users_id_seq := 2\<rparr>"

definition ex_admin_session :: session where
  "ex_admin_session = \<lparr>userId = Some 1, user = Some ex_admin\<rparr>"


definition ex_step :: step where
  "ex_step =
     \<lparr>step_now = 5, step_bcrypt = ex_bcrypt, step_session = ex_session,
      step_request = POST_paletizado_stock ex_stock_req\<rparr>"

section \<open>Properties\<close>

subsection \<open>Lookups and evaluation\<close>

lemma find_Some_set: "find P xs = Some x \<Longrightarrow> x \<in> set xs \<and> P x"
  by (induction xs) (auto split: if_splits)

lemma find_map_same:
  assumes "find P xs = Some x" and "\<And>y. P (f y) = P y"
  shows "find P (map f xs) = Some (f x)"
  using assms by (induction xs) (auto split: if_splits)

lemma decimal_digit: "n < 10 \<Longrightarrow> decimal n = [''0123456789'' ! n]"
  by (subst decimal.simps) simp

lemma decimal_more: "\<not> n < 10 \<Longrightarrow> decimal n = decimal (n div 10) @ [''0123456789'' ! (n mod 10)]"
  by (subst decimal.simps) simp

lemma decimal_not_empty: "decimal n \<noteq> []"
  by (subst decimal.simps) simp

lemma js_plus_numbers: "js_plus (PNum a) (PNum b) = PNum (a + b)"
  by (simp add: js_plus_def to_number_def is_string_def)

lemma js_times_numbers: "js_times (PNum a) (PNum b) = PNum (a * b)"
  by (simp add: js_times_def to_number_def)

lemma integer_column_number: "integer_column (PNum n) = (if int4 n then Some n else None)"
  by (simp add: integer_column_def)

lemma getProductByCode_found:
  "getProductByCode d c = Some p \<Longrightarrow> p \<in> set (products d)"
  by (auto simp: getProductByCode_def split: option.splits dest: find_Some_set)

lemma getProductByCode_references:
  "getProductByCode d c = Some p \<Longrightarrow> references_product d (product_id p)"
  unfolding references_product_def list_ex_iff
  using getProductByCode_found by blast

lemma getPico_found:
  "getPico d i = Inr (Some (p, q)) \<Longrightarrow> int4 i \<and> find (\<lambda>p. pico_id p = i) (picos d) = Some p"
  by (auto simp: getPico_def split: if_splits option.splits)

subsection \<open>What \<open>PUT /api/picos/:id\<close> does\<close>

lemma pico_set_numbers:
  "pico_set \<lparr>set_pico_productId = None, set_pico_bases = PNum b, set_pico_looseUnits = PNum l,
             set_pico_totalUnits = PNum t, set_pico_towerLocation = PUndefined\<rparr>
   = (if int4 b \<and> int4 l \<and> int4 t
      then Some \<lparr>pico_set_productId = None, pico_set_bases = Some b, pico_set_looseUnits = Some l,
                 pico_set_totalUnits = Some t, pico_set_towerLocation = None\<rparr>
      else None)"
  by (simp add: pico_set_def set_key_def integer_column_number)

lemma set_pico_put:
  "set_pico now \<lparr>pico_set_productId = None, pico_set_bases = Some b, pico_set_looseUnits = Some l,
                 pico_set_totalUnits = Some t, pico_set_towerLocation = None\<rparr> p = put_pico now b l t p"
  by (simp add: set_pico_def put_pico_def)

lemma pico_id_set_pico: "pico_id (set_pico now cols p) = pico_id p"
  by (simp add: set_pico_def)

lemma update_picos_found:
  assumes "find (\<lambda>p. pico_id p = i) (picos d) = Some existing"
  shows "update_picos now d i cols
     = (Some (set_pico now cols existing),
        d\<lparr>picos := map (\<lambda>p. if pico_id p = i then set_pico now cols p else p) (picos d)\<rparr>)"
proof -
  let ?f = "\<lambda>p. if pico_id p = i then set_pico now cols p else p"
  have "find (\<lambda>p. pico_id p = i) (map ?f (picos d)) = Some (?f existing)"
    by (rule find_map_same[OF assms]) (simp add: pico_id_set_pico)
  moreover have "pico_id existing = i"
    using find_Some_set[OF assms] by simp
  ultimately show ?thesis
    unfolding update_picos_def Let_def by simp
qed

lemma put_api_picos_numbers:
  assumes "requireAuth sess" and g: "getPico d i = Inr (Some (existing, product))"
    and "\<not> truthy (req_towerLocation req)"
    and "req_bases req = PNum b" and "req_looseUnits req = PNum l"
  shows "put_api_picos now d sess i req =
     (if int4 b \<and> int4 l \<and> int4 (b * product_unitsPerBase product + l)
      then (res_json (pico_obj (put_pico now b l (b * product_unitsPerBase product + l) existing)),
            d\<lparr>picos := map (\<lambda>p. if pico_id p = i
                                  then put_pico now b l (b * product_unitsPerBase product + l) p
                                  else p) (picos d)\<rparr>)
      else (res_status_json 400 (message ''Failed to update pico''), d))"
proof -
  have i: "int4 i" and f: "find (\<lambda>p. pico_id p = i) (picos d) = Some existing"
    using getPico_found[OF g] by simp_all
  show ?thesis
    using assms i
    by (simp add: put_api_picos_def updatePico_def Let_def js_times_numbers js_plus_numbers
        pico_set_numbers update_picos_found[OF f] set_pico_put)
qed

lemma put_pico_rows:
  "put_pico now b l t p =
     p\<lparr>pico_bases := b, pico_looseUnits := l, pico_totalUnits := t, pico_updatedAt := Some now\<rparr>"
  by (simp add: put_pico_def)

lemma picos_frame_map:
  assumes "d' = d\<lparr>picos := map (\<lambda>p. if pico_id p = i then f p else p) (picos d)\<rparr>"
  shows "d'\<lparr>picos := picos d\<rparr> = d \<and> length (picos d') = length (picos d)
       \<and> (\<forall>k < length (picos d). pico_id (picos d ! k) \<noteq> i \<longrightarrow> picos d' ! k = picos d ! k)"
  by (simp add: assms)

lemma updatePico_rows:
  assumes "updatePico now d i u = Inr (r, d1)"
  shows "\<exists>cols. d1 = d\<lparr>picos := map (\<lambda>p. if pico_id p = i then set_pico now cols p else p) (picos d)\<rparr>"
  using assms
  by (auto simp: updatePico_def update_picos_def Let_def split: if_splits option.splits)

lemma put_api_picos_changes:
  "snd (put_api_picos now d sess i req) = d
   \<or> (\<exists>cols. snd (put_api_picos now d sess i req) =
         d\<lparr>picos := map (\<lambda>p. if pico_id p = i then set_pico now cols p else p) (picos d)\<rparr>)"
proof (cases "requireAuth sess")
  case False
  then show ?thesis by (simp add: put_api_picos_def)
next
  case auth: True
  show ?thesis
  proof (cases "getPico d i")
    case (Inl e)
    then show ?thesis using auth by (simp add: put_api_picos_def)
  next
    case (Inr a)
    show ?thesis
    proof (cases a)
      case None
      then show ?thesis using auth Inr by (simp add: put_api_picos_def)
    next
      case (Some pq)
      obtain existing product where pq: "pq = (existing, product)" by (cases pq)
      define u where "u = \<lparr>set_pico_productId = None, set_pico_bases = req_bases req,
                            set_pico_looseUnits = req_looseUnits req,
                            set_pico_totalUnits =
                              js_plus (js_times (req_bases req) (PNum (product_unitsPerBase product)))
                                (req_looseUnits req),
                            set_pico_towerLocation =
                              (if truthy (req_towerLocation req) then req_towerLocation req
                               else PUndefined)\<rparr>"
      have e: "put_api_picos now d sess i req =
          (case updatePico now d i u of
             Inl e \<Rightarrow> (res_status_json 400 (message ''Failed to update pico''), d)
           | Inr (pico, d1) \<Rightarrow>
               (res_json (case pico of None \<Rightarrow> JUndefined | Some p \<Rightarrow> pico_obj p), d1))"
        using auth Inr Some pq by (simp add: put_api_picos_def Let_def u_def)
      show ?thesis
      proof (cases "updatePico now d i u")
        case (Inl x)
        then show ?thesis by (simp add: e)
      next
        case (Inr rd)
        obtain r d1 where rd: "rd = (r, d1)" by (cases rd)
        have "updatePico now d i u = Inr (r, d1)" using Inr rd by simp
        from updatePico_rows[OF this] obtain cols where
          "d1 = d\<lparr>picos := map (\<lambda>p. if pico_id p = i then set_pico now cols p else p) (picos d)\<rparr>"
          by blast
        then have "\<exists>cols. snd (put_api_picos now d sess i req) =
            d\<lparr>picos := map (\<lambda>p. if pico_id p = i then set_pico now cols p else p) (picos d)\<rparr>"
          using Inr rd by (auto simp: e)
        then show ?thesis by blast
      qed
    qed
  qed
qed

lemma put_api_picos_frame:
  "(case put_api_picos now d sess i req of (res, d') \<Rightarrow>
      d'\<lparr>picos := picos d\<rparr> = d \<and> length (picos d') = length (picos d)
      \<and> (\<forall>k < length (picos d). pico_id (picos d ! k) \<noteq> i \<longrightarrow> picos d' ! k = picos d ! k))"
proof -
  have "snd (put_api_picos now d sess i req)\<lparr>picos := picos d\<rparr> = d
      \<and> length (picos (snd (put_api_picos now d sess i req))) = length (picos d)
      \<and> (\<forall>k < length (picos d). pico_id (picos d ! k) \<noteq> i \<longrightarrow>
            picos (snd (put_api_picos now d sess i req)) ! k = picos d ! k)"
    using put_api_picos_changes[of now d sess i req]
  proof (elim disjE exE)
    assume "snd (put_api_picos now d sess i req) = d"
    then show ?thesis by simp
  next
    fix cols
    assume "snd (put_api_picos now d sess i req) =
         d\<lparr>picos := map (\<lambda>p. if pico_id p = i then set_pico now cols p else p) (picos d)\<rparr>"
    then show ?thesis by (rule picos_frame_map)
  qed
  then show ?thesis by (simp add: split_beta)
qed

lemma ex_auth: "requireAuth ex_session"
  by (simp add: requireAuth_def ex_session_def)

lemma ex_getProduct: "getProductByCode ex_db (PStr ''P1'') = Some ex_product"
  by (simp add: getProductByCode_def text_param_def to_string_def empty_db_def ex_product_def ex_db_def)

lemma ex_getPico: "getPico ex_db_pico 1 = Inr (Some (ex_pico, ex_product))"
  by (simp add: getPico_def int4_def empty_db_def ex_product_def ex_db_def ex_pico_def ex_db_pico_def)

subsection \<open>Claims about picos\<close>

text \<open>
  \<^bold>\<open>C1.\<close> \<open>PUT /api/picos/:id\<close> computes \<open>totalUnits\<close> from the body as it came. With
  the body \<open>{"bases": "2", "looseUnits": "3"}\<close> on a pico of a product with five units per
  base, \<open>"2" * 5\<close> is \<open>10\<close> and \<open>10 + "3"\<close> is the string \<open>"103"\<close>; the columns read the
  three strings as \<open>2\<close>, \<open>3\<close> and \<open>103\<close>, so the request succeeds and the row then holds
  \<open>totalUnits = 103\<close> beside \<open>bases = 2\<close> and \<open>looseUnits = 3\<close>, where
  \<open>bases * unitsPerBase + looseUnits\<close> is 13. The same body with numbers stores 13, and
  \<open>POST /api/picos\<close>, which parses \<open>insertPicoSchema\<close>, refuses the strings.
\<close>

theorem put_pico_totalUnits_of_strings:
  "put_api_picos 9 ex_db_pico ex_session 1 ex_put_req_strings
     = (res_json (JObj
          [(''id'', JNum 1), (''productId'', JNum 1), (''bases'', JNum 2),
           (''looseUnits'', JNum 3), (''totalUnits'', JNum 103),
           (''towerLocation'', JStr ''01''), (''createdAt'', JDate 7),
           (''updatedAt'', JDate 9)]),
        ex_db_pico\<lparr>picos :=
          [\<lparr>pico_id = 1, pico_productId = 1, pico_bases = 2, pico_looseUnits = 3,
            pico_totalUnits = 103, pico_towerLocation = ''01'', pico_createdAt = Some 7,
            pico_updatedAt = Some 9\<rparr>]\<rparr>)
   \<and> getPico ex_db_pico 1 = Inr (Some (ex_pico, ex_product))
   \<and> 2 * product_unitsPerBase ex_product + 3 = 13
   \<and> put_api_picos 9 ex_db_pico ex_session 1 ex_put_req_numbers
     = (res_json (JObj
          [(''id'', JNum 1), (''productId'', JNum 1), (''bases'', JNum 2),
           (''looseUnits'', JNum 3), (''totalUnits'', JNum 13),
           (''towerLocation'', JStr ''01''), (''createdAt'', JDate 7),
           (''updatedAt'', JDate 9)]),
        ex_db_pico\<lparr>picos :=
          [\<lparr>pico_id = 1, pico_productId = 1, pico_bases = 2, pico_looseUnits = 3,
            pico_totalUnits = 13, pico_towerLocation = ''01'', pico_createdAt = Some 7,
            pico_updatedAt = Some 9\<rparr>]\<rparr>)
   \<and> post_api_picos 9 ex_db ex_session ex_post_req_strings
     = (res_status_json 400 (message ''Invalid pico data''), ex_db)"
  by (simp add: put_api_picos_def post_api_picos_def getPico_def getProductByCode_def
      text_param_def
      updatePico_def pico_set_def update_picos_def set_pico_def set_key_def insertPicoSchema_def
      z_number_def z_number_optional_def integer_column_def integer_in_def integer_literal_def
      trim_def is_space_def is_digit_def digits_value_def digit_value_def int4_def
      js_plus_def js_times_def to_number_def to_string_def is_string_def string_to_number_def
      number_text_def decimal_digit decimal_more truthy_def requireAuth_def Let_def
      pico_obj_def js_date_def
      empty_db_def ex_product_def ex_db_def ex_session_def ex_pico_def ex_db_pico_def
      ex_put_req_strings_def ex_put_req_numbers_def ex_post_req_strings_def)

text \<open>
  \<^bold>\<open>C7.\<close> \<open>DELETE /api/picos/:id\<close> in the database after the \<open>item_type\<close> migration:
  the pico is found and deleted, the insert of the \<open>exit\<close> row (which does not name
  \<open>item_type\<close>) is refused, the answer is 400 and the activity log has no new row. Before
  the migration the same request deletes the pico, appends the \<open>exit\<close> row with the
  pico's \<open>totalUnits\<close> and its product's code, description and category, and answers 200.
\<close>

theorem delete_pico_exit_log_refused:
  "getPico ex_db_pico_migrated 1 = Inr (Some (ex_pico, ex_product))
   \<and> activityLog ex_db_pico_migrated = []
   \<and> delete_api_picos 9 ex_db_pico_migrated ex_session 1
     = (res_status_json 400 (message ''Failed to eliminate pico''),
        ex_db_pico_migrated\<lparr>picos := []\<rparr>)
   \<and> activityLog (snd (delete_api_picos 9 ex_db_pico_migrated ex_session 1)) = []
   \<and> delete_api_picos 9 ex_db_pico ex_session 1
     = (res_json (message ''Pico eliminated successfully''),
        ex_db_pico\<lparr>picos := [],
           activityLog :=
             [\<lparr>activity_id = 1, activity_type = ''exit'', activity_productCode = ''P1'',
               activity_productDescription = ''Widget'', activity_quantity = 13,
               activity_category = alta_rotacao, activity_itemType = None,
               activity_createdAt = Some 9\<rparr>],
           activity_log_id_seq := 2\<rparr>)"
  by (simp add: delete_api_picos_def getPico_def deletePico_def createActivityLog_def
      integer_column_def int4_def requireAuth_def add_item_type_to_activity_log_def Let_def
      empty_db_def ex_product_def ex_db_def ex_session_def ex_pico_def ex_db_pico_def
      ex_db_pico_migrated_def)

text \<open>
  \<^bold>\<open>C9.\<close> \<open>PUT /api/picos/:id\<close> on an existing pico, with \<open>towerLocation\<close> absent or the
  empty string and with whole numbers for \<open>bases\<close> and \<open>looseUnits\<close>: when these two and
  the recomputed \<open>totalUnits\<close> fit the 32-bit \<open>integer\<close> columns, the stored
  \<open>towerLocation\<close> stays as it was, while \<open>bases\<close>, \<open>looseUnits\<close> and \<open>totalUnits\<close> (and
  \<open>updatedAt\<close>) are overwritten; when one of the three does not fit, the answer is 400 and
  nothing is overwritten. For every request to the route, the pico rows with another id
  and everything else in the database are unchanged.
\<close>

theorem put_pico_frame:
  "(requireAuth sess \<and> getPico d i = Inr (Some (existing, product))
      \<and> (req_towerLocation req = PUndefined \<or> req_towerLocation req = PStr [])
      \<and> req_bases req = PNum b \<and> req_looseUnits req = PNum l \<longrightarrow>
      put_api_picos now d sess i req =
        (if int4 b \<and> int4 l \<and> int4 (b * product_unitsPerBase product + l)
         then (res_json (pico_obj
                 (existing\<lparr>pico_bases := b, pico_looseUnits := l,
                    pico_totalUnits := b * product_unitsPerBase product + l,
                    pico_updatedAt := Some now\<rparr>)),
               d\<lparr>picos := map (\<lambda>p. if pico_id p = i
                          then p\<lparr>pico_bases := b, pico_looseUnits := l,
                                 pico_totalUnits := b * product_unitsPerBase product + l,
                                 pico_updatedAt := Some now\<rparr>
                          else p) (picos d)\<rparr>)
         else (res_status_json 400 (message ''Failed to update pico''), d)))
   \<and> (case put_api_picos now d sess i req of (res, d') \<Rightarrow>
        d'\<lparr>picos := picos d\<rparr> = d \<and> length (picos d') = length (picos d)
        \<and> (\<forall>k < length (picos d). pico_id (picos d ! k) \<noteq> i \<longrightarrow> picos d' ! k = picos d ! k))"
proof (intro conjI impI)
  assume a: "requireAuth sess \<and> getPico d i = Inr (Some (existing, product))
      \<and> (req_towerLocation req = PUndefined \<or> req_towerLocation req = PStr [])
      \<and> req_bases req = PNum b \<and> req_looseUnits req = PNum l"
  then have t: "\<not> truthy (req_towerLocation req)"
    by (auto simp: truthy_def)
  from a have "put_api_picos now d sess i req =
     (if int4 b \<and> int4 l \<and> int4 (b * product_unitsPerBase product + l)
      then (res_json (pico_obj (put_pico now b l (b * product_unitsPerBase product + l) existing)),
            d\<lparr>picos := map (\<lambda>p. if pico_id p = i
                                  then put_pico now b l (b * product_unitsPerBase product + l) p
                                  else p) (picos d)\<rparr>)
      else (res_status_json 400 (message ''Failed to update pico''), d))"
    using t by (intro put_api_picos_numbers) simp_all
  then show "put_api_picos now d sess i req =
        (if int4 b \<and> int4 l \<and> int4 (b * product_unitsPerBase product + l)
         then (res_json (pico_obj
                 (existing\<lparr>pico_bases := b, pico_looseUnits := l,
                    pico_totalUnits := b * product_unitsPerBase product + l,
                    pico_updatedAt := Some now\<rparr>)),
               d\<lparr>picos := map (\<lambda>p. if pico_id p = i
                          then p\<lparr>pico_bases := b, pico_looseUnits := l,
                                 pico_totalUnits := b * product_unitsPerBase product + l,
                                 pico_updatedAt := Some now\<rparr>
                          else p) (picos d)\<rparr>)
         else (res_status_json 400 (message ''Failed to update pico''), d))"
    by (simp only: put_pico_rows)
next
  show "case put_api_picos now d sess i req of (res, d') \<Rightarrow>
        d'\<lparr>picos := picos d\<rparr> = d \<and> length (picos d') = length (picos d)
        \<and> (\<forall>k < length (picos d). pico_id (picos d ! k) \<noteq> i \<longrightarrow> picos d' ! k = picos d ! k)"
    by (rule put_api_picos_frame)
qed

text \<open>
  With \<open>towerLocation\<close> absent, \<open>bases = 429496729\<close> and \<open>looseUnits = 3\<close> on the example
  pico, \<open>totalUnits\<close> would be \<open>2147483648\<close>: the answer is 400 and the row keeps its
  \<open>bases = 2\<close>.
\<close>

theorem put_pico_frame_counterexample:
  "requireAuth ex_session
   \<and> getPico ex_db_pico 1 = Inr (Some (ex_pico, ex_product))
   \<and> req_towerLocation ex_put_req_large = PUndefined
   \<and> req_bases ex_put_req_large = PNum 429496729
   \<and> put_api_picos 9 ex_db_pico ex_session 1 ex_put_req_large
     = (res_status_json 400 (message ''Failed to update pico''), ex_db_pico)
   \<and> map pico_bases (picos (snd (put_api_picos 9 ex_db_pico ex_session 1 ex_put_req_large))) = [2]"
  by (simp add: put_api_picos_def getPico_def updatePico_def pico_set_def set_key_def
      integer_column_def int4_def js_plus_def js_times_def to_number_def is_string_def
      truthy_def requireAuth_def Let_def
      empty_db_def ex_product_def ex_db_def ex_session_def ex_pico_def ex_db_pico_def
      ex_put_req_large_def)

theorem put_pico_frame_witness:
  "requireAuth ex_session
   \<and> getPico ex_db_pico 1 = Inr (Some (ex_pico, ex_product))
   \<and> req_towerLocation ex_put_req = PUndefined
   \<and> put_api_picos 9 ex_db_pico ex_session 1 ex_put_req =
       (res_json (pico_obj (ex_pico\<lparr>pico_bases := 4, pico_looseUnits := 1, pico_totalUnits := 21,
                                      pico_updatedAt := Some 9\<rparr>)),
        ex_db_pico\<lparr>picos := [ex_pico\<lparr>pico_bases := 4, pico_looseUnits := 1, pico_totalUnits := 21,
                                      pico_updatedAt := Some 9\<rparr>]\<rparr>)
   \<and> pico_towerLocation (ex_pico\<lparr>pico_bases := 4, pico_looseUnits := 1, pico_totalUnits := 21,
                                      pico_updatedAt := Some 9\<rparr>) = ''01''
   \<and> body (fst (put_api_picos 9 ex_db_pico ex_session 1 ex_put_req)) =
       JObj [(''id'', JNum 1), (''productId'', JNum 1), (''bases'', JNum 4),
             (''looseUnits'', JNum 1), (''totalUnits'', JNum 21),
             (''towerLocation'', JStr ''01''), (''createdAt'', JDate 7),
             (''updatedAt'', JDate 9)]
   \<and> put_api_picos 9 ex_db_pico ex_session 1 ex_put_req_large =
       (res_status_json 400 (message ''Failed to update pico''), ex_db_pico)"
proof -
  have u: "product_unitsPerBase ex_product = 5"
    by (simp add: ex_product_def)
  have r: "req_towerLocation ex_put_req = PUndefined" "req_bases ex_put_req = PNum 4"
    "req_looseUnits ex_put_req = PNum 1"
    by (simp_all add: ex_put_req_def)
  have rl: "req_towerLocation ex_put_req_large = PUndefined"
    "req_bases ex_put_req_large = PNum 429496729" "req_looseUnits ex_put_req_large = PNum 3"
    by (simp_all add: ex_put_req_large_def)
  have rows: "picos ex_db_pico = [ex_pico]" "pico_id ex_pico = 1"
    "pico_towerLocation ex_pico = ''01''"
    by (simp_all add: ex_db_pico_def ex_pico_def)
  have 1: "put_api_picos 9 ex_db_pico ex_session 1 ex_put_req =
       (res_json (pico_obj (ex_pico\<lparr>pico_bases := 4, pico_looseUnits := 1, pico_totalUnits := 21,
                                      pico_updatedAt := Some 9\<rparr>)),
        ex_db_pico\<lparr>picos := [ex_pico\<lparr>pico_bases := 4, pico_looseUnits := 1, pico_totalUnits := 21,
                                      pico_updatedAt := Some 9\<rparr>]\<rparr>)"
    using put_pico_frame[where sess = ex_session and d = ex_db_pico and i = 1 and existing = ex_pico
        and product = ex_product and req = ex_put_req and now = 9 and b = 4 and l = 1]
      ex_auth ex_getPico
    by (simp add: r u rows int4_def)
  have 2: "put_api_picos 9 ex_db_pico ex_session 1 ex_put_req_large =
       (res_status_json 400 (message ''Failed to update pico''), ex_db_pico)"
    using put_pico_frame[where sess = ex_session and d = ex_db_pico and i = 1 and existing = ex_pico
        and product = ex_product and req = ex_put_req_large and now = 9 and b = 429496729 and l = 3]
      ex_auth ex_getPico
    by (simp add: rl u int4_def)
  have 3: "body (fst (put_api_picos 9 ex_db_pico ex_session 1 ex_put_req)) =
       JObj [(''id'', JNum 1), (''productId'', JNum 1), (''bases'', JNum 4),
             (''looseUnits'', JNum 1), (''totalUnits'', JNum 21),
             (''towerLocation'', JStr ''01''), (''createdAt'', JDate 7),
             (''updatedAt'', JDate 9)]"
    by (simp add: 1 res_json_def pico_obj_def js_date_def ex_pico_def)
  show ?thesis
    using 1 2 3 ex_auth ex_getPico by (simp add: r rows)
qed

text \<open>
  \<^bold>\<open>C3.\<close> \<open>PUT /api/picos/:id\<close> does not check \<open>towerLocation\<close> against the schema: the
  one-character \<open>"1"\<close> fits the \<open>varchar(2)\<close> column, so the request succeeds and the row
  then holds a tower location that is not two digits. \<open>"abc"\<close> and \<open>"123"\<close> are refused by the
  column, and \<open>POST /api/picos\<close> refuses all three.
\<close>

theorem put_pico_tower_not_validated:
  "\<not> two_digits ''1''
   \<and> put_api_picos 9 ex_db_pico ex_session 1 (ex_put_req_tower ''1'')
     = (res_json (pico_obj (ex_pico\<lparr>pico_towerLocation := ''1'', pico_updatedAt := Some 9\<rparr>)),
        ex_db_pico\<lparr>picos := [ex_pico\<lparr>pico_towerLocation := ''1'', pico_updatedAt := Some 9\<rparr>]\<rparr>)
   \<and> put_api_picos 9 ex_db_pico ex_session 1 (ex_put_req_tower ''abc'')
     = (res_status_json 400 (message ''Failed to update pico''), ex_db_pico)
   \<and> put_api_picos 9 ex_db_pico ex_session 1 (ex_put_req_tower ''123'')
     = (res_status_json 400 (message ''Failed to update pico''), ex_db_pico)
   \<and> post_api_picos 9 ex_db ex_session (ex_post_req_tower ''1'')
     = (res_status_json 400 (message ''Invalid pico data''), ex_db)
   \<and> post_api_picos 9 ex_db ex_session (ex_post_req_tower ''abc'')
     = (res_status_json 400 (message ''Invalid pico data''), ex_db)
   \<and> post_api_picos 9 ex_db ex_session (ex_post_req_tower ''123'')
     = (res_status_json 400 (message ''Invalid pico data''), ex_db)"
  by (simp add: put_api_picos_def post_api_picos_def updatePico_def pico_set_def update_picos_def
      set_pico_def set_key_def getPico_def getProductByCode_def insertPicoSchema_def
      z_number_def z_number_optional_def integer_column_def int4_def
      js_plus_def js_times_def to_number_def to_string_def is_string_def text_param_def
      varchar_column_def varchar_def characters_def truthy_def
      two_digits_def is_digit_def requireAuth_def Let_def
      empty_db_def ex_product_def ex_db_def ex_session_def ex_pico_def
      ex_db_pico_def ex_put_req_tower_def ex_post_req_tower_def)

subsection \<open>What the stock routes do\<close>

lemma find_not_None: "x \<in> set xs \<Longrightarrow> P x \<Longrightarrow> find P xs \<noteq> None"
  by (auto simp: find_None_iff)

lemma product_by_id_found:
  assumes "getProductByCode d c = Some product"
  shows "\<exists>q. find (\<lambda>q. product_id q = product_id product) (products d) = Some q"
proof -
  have "product \<in> set (products d)"
    using assms by (rule getProductByCode_found)
  then have "find (\<lambda>q. product_id q = product_id product) (products d) \<noteq> None"
    by (rule find_not_None) simp
  then show ?thesis by blast
qed

lemma getPaletizadoStockByProductId_existing:
  assumes p: "getProductByCode d c = Some product"
    and f: "find (\<lambda>s. stock_productId s = product_id product) (paletizadoStock d) = Some existing"
  shows "\<exists>q. getPaletizadoStockByProductId d (product_id product) = Some (existing, q)"
proof -
  have e: "stock_productId existing = product_id product"
    using find_Some_set[OF f] by simp
  obtain q where "find (\<lambda>q. product_id q = product_id product) (products d) = Some q"
    using product_by_id_found[OF p] by blast
  then show ?thesis
    by (simp add: getPaletizadoStockByProductId_def with_product_def f e)
qed

lemma getPaletizadoStockByProductId_none:
  assumes "find (\<lambda>s. stock_productId s = i) (paletizadoStock d) = None"
  shows "getPaletizadoStockByProductId d i = None"
  using assms by (simp add: getPaletizadoStockByProductId_def with_product_def)

lemma getPaletizadoStockByProductId_None_find:
  assumes p: "getProductByCode d c = Some product"
    and g: "getPaletizadoStockByProductId d (product_id product) = None"
  shows "find (\<lambda>s. stock_productId s = product_id product) (paletizadoStock d) = None"
proof (cases "find (\<lambda>s. stock_productId s = product_id product) (paletizadoStock d)")
  case None
  then show ?thesis .
next
  case (Some existing)
  from getPaletizadoStockByProductId_existing[OF p Some] g show ?thesis by simp
qed

lemma set_stock_restock:
  "set_stock now \<lparr>stock_set_productId = None, stock_set_quantity = Some q\<rparr> s = restock now q s"
  by (simp add: set_stock_def restock_def)

lemma stock_productId_set_stock:
  "stock_productId (set_stock now \<lparr>stock_set_productId = None, stock_set_quantity = q\<rparr> s)
     = stock_productId s"
  by (simp add: set_stock_def)

lemma updatePaletizadoStock_rows:
  assumes "updatePaletizadoStock now d i \<lparr>set_stock_productId = None, set_stock_quantity = v\<rparr>
             = Inr (r, d1)"
  shows "\<exists>q. d1 = d\<lparr>paletizadoStock :=
                  map (\<lambda>s. if stock_id s = i
                            then set_stock now \<lparr>stock_set_productId = None, stock_set_quantity = q\<rparr> s
                            else s) (paletizadoStock d)\<rparr>"
  using assms
  by (auto simp: updatePaletizadoStock_def Let_def split: if_splits option.splits)

lemma updatePaletizadoStock_number:
  assumes "int4 i"
  shows "updatePaletizadoStock now d i \<lparr>set_stock_productId = None, set_stock_quantity = PNum q\<rparr> =
     (if int4 q
      then Inr (find (\<lambda>s. stock_id s = i)
                  (map (\<lambda>s. if stock_id s = i then restock now q s else s) (paletizadoStock d)),
                d\<lparr>paletizadoStock :=
                    map (\<lambda>s. if stock_id s = i then restock now q s else s) (paletizadoStock d)\<rparr>)
      else Inl DatabaseError)"
  using assms
  by (simp add: updatePaletizadoStock_def set_key_def integer_column_number Let_def
      set_stock_restock cong: if_cong)

lemma upsert_stock_existing:
  assumes p: "getProductByCode d c = Some product"
    and f: "find (\<lambda>s. stock_productId s = product_id product) (paletizadoStock d) = Some existing"
    and i: "int4 (stock_id existing)"
  shows "upsert_stock now d product (PNum n) =
     (if int4 (stock_quantity existing + n)
      then Inr (find (\<lambda>s. stock_id s = stock_id existing)
                  (map (\<lambda>s. if stock_id s = stock_id existing
                            then restock now (stock_quantity existing + n) s else s)
                     (paletizadoStock d)),
                d\<lparr>paletizadoStock :=
                    map (\<lambda>s. if stock_id s = stock_id existing
                              then restock now (stock_quantity existing + n) s else s)
                      (paletizadoStock d)\<rparr>)
      else Inl DatabaseError)"
proof -
  obtain q where g: "getPaletizadoStockByProductId d (product_id product) = Some (existing, q)"
    using getPaletizadoStockByProductId_existing[OF p f] by blast
  show ?thesis
    by (simp add: upsert_stock_def g js_plus_numbers updatePaletizadoStock_number[OF i])
qed

lemma upsert_stock_none:
  assumes p: "getProductByCode d c = Some product"
    and f: "find (\<lambda>s. stock_productId s = product_id product) (paletizadoStock d) = None"
  shows "upsert_stock now d product (PNum n) =
     (if int4 n
      then Inr (Some (new_stock now d product n),
                d\<lparr>paletizadoStock := paletizadoStock d @ [new_stock now d product n],
                  paletizado_stock_id_seq := paletizado_stock_id_seq d + 1\<rparr>)
      else Inl DatabaseError)"
  using getProductByCode_references[OF p]
  by (simp add: upsert_stock_def getPaletizadoStockByProductId_none[OF f]
      insertPaletizadoStockSchema_def z_number_optional_def z_number_def
      createPaletizadoStock_def Let_def new_stock_def)

lemma createActivityLog_stock:
  "(case createActivityLog now d a of Inl e \<Rightarrow> paletizadoStock d | Inr (x, d') \<Rightarrow> paletizadoStock d')
     = paletizadoStock d"
  by (simp add: createActivityLog_def Let_def split: option.splits)

lemma post_after_upsert:
  assumes "requireAuth sess"
    and p: "getProductByCode d (req_stock_productCode req) = Some product"
    and u: "upsert_stock now d product (req_quantity req) = Inr (r, d1)"
  shows "paletizadoStock (snd (post_api_paletizado_stock now d sess req)) = paletizadoStock d1"
proof (cases "createActivityLog now d1 (entry_log product (req_quantity req))")
  case (Inl e)
  then show ?thesis
    using assms by (simp add: post_api_paletizado_stock_def)
next
  case (Inr x)
  then obtain a d2 where x: "createActivityLog now d1 (entry_log product (req_quantity req)) = Inr (a, d2)"
    by (cases x) simp
  have "paletizadoStock d2 = paletizadoStock d1"
    using createActivityLog_stock[where now = now and d = d1 and a = "entry_log product (req_quantity req)"]
    by (simp add: x)
  then show ?thesis
    using assms by (simp add: post_api_paletizado_stock_def x)
qed

lemma post_upsert_refused:
  assumes "requireAuth sess"
    and p: "getProductByCode d (req_stock_productCode req) = Some product"
    and u: "upsert_stock now d product (req_quantity req) = Inl e"
  shows "post_api_paletizado_stock now d sess req =
     (res_status_json 400 (message ''Invalid stock data''), d)"
  using assms by (simp add: post_api_paletizado_stock_def)

lemma post_stock_existing:
  assumes auth: "requireAuth sess"
    and p: "getProductByCode d (req_stock_productCode req) = Some product"
    and f: "find (\<lambda>s. stock_productId s = product_id product) (paletizadoStock d) = Some existing"
    and i: "int4 (stock_id existing)"
    and n: "req_quantity req = PNum n"
  shows "if int4 (stock_quantity existing + n)
     then paletizadoStock (snd (post_api_paletizado_stock now d sess req)) =
            map (\<lambda>s. if stock_id s = stock_id existing
                      then restock now (stock_quantity existing + n) s else s)
              (paletizadoStock d)
     else post_api_paletizado_stock now d sess req =
            (res_status_json 400 (message ''Invalid stock data''), d)"
proof (cases "int4 (stock_quantity existing + n)")
  case True
  have "upsert_stock now d product (req_quantity req) =
      Inr (find (\<lambda>s. stock_id s = stock_id existing)
                  (map (\<lambda>s. if stock_id s = stock_id existing
                            then restock now (stock_quantity existing + n) s else s)
                     (paletizadoStock d)),
                d\<lparr>paletizadoStock :=
                    map (\<lambda>s. if stock_id s = stock_id existing
                              then restock now (stock_quantity existing + n) s else s)
                      (paletizadoStock d)\<rparr>)"
    using True by (simp add: n upsert_stock_existing[OF p f i])
  from post_after_upsert[OF auth p this] show ?thesis using True by simp
next
  case False
  have "upsert_stock now d product (req_quantity req) = Inl DatabaseError"
    using False by (simp add: n upsert_stock_existing[OF p f i])
  from post_upsert_refused[OF auth p this] show ?thesis using False by simp
qed

lemma post_stock_none:
  assumes auth: "requireAuth sess"
    and p: "getProductByCode d (req_stock_productCode req) = Some product"
    and f: "find (\<lambda>s. stock_productId s = product_id product) (paletizadoStock d) = None"
    and n: "req_quantity req = PNum n"
  shows "if int4 n
     then paletizadoStock (snd (post_api_paletizado_stock now d sess req)) =
            paletizadoStock d @ [new_stock now d product n]
     else post_api_paletizado_stock now d sess req =
            (res_status_json 400 (message ''Invalid stock data''), d)"
proof (cases "int4 n")
  case True
  have "upsert_stock now d product (req_quantity req) =
      Inr (Some (new_stock now d product n),
                d\<lparr>paletizadoStock := paletizadoStock d @ [new_stock now d product n],
                  paletizado_stock_id_seq := paletizado_stock_id_seq d + 1\<rparr>)"
    using True by (simp add: n upsert_stock_none[OF p f])
  from post_after_upsert[OF auth p this] show ?thesis using True by simp
next
  case False
  have "upsert_stock now d product (req_quantity req) = Inl DatabaseError"
    using False by (simp add: n upsert_stock_none[OF p f])
  from post_upsert_refused[OF auth p this] show ?thesis using False by simp
qed

text \<open>Whatever the body holds, the table changes in one of two ways.\<close>

lemma upsert_stock_table:
  assumes p: "getProductByCode d c = Some product"
    and u: "upsert_stock now d product quantity = Inr (r, d1)"
  shows "(\<exists>i q. paletizadoStock d1 =
            map (\<lambda>s. if stock_id s = i
                      then set_stock now \<lparr>stock_set_productId = None, stock_set_quantity = q\<rparr> s
                      else s) (paletizadoStock d))
       \<or> (find (\<lambda>s. stock_productId s = product_id product) (paletizadoStock d) = None
          \<and> (\<exists>row. stock_productId row = product_id product
                 \<and> paletizadoStock d1 = paletizadoStock d @ [row]))"
proof (cases "getPaletizadoStockByProductId d (product_id product)")
  case (Some a)
  obtain existing q' where a: "a = (existing, q')" by (cases a)
  have "updatePaletizadoStock now d (stock_id existing)
          \<lparr>set_stock_productId = None,
           set_stock_quantity = js_plus (PNum (stock_quantity existing)) quantity\<rparr> = Inr (r, d1)"
    using u by (simp add: upsert_stock_def Some a)
  from updatePaletizadoStock_rows[OF this] obtain q where
    "d1 = d\<lparr>paletizadoStock :=
                  map (\<lambda>s. if stock_id s = stock_id existing
                            then set_stock now \<lparr>stock_set_productId = None, stock_set_quantity = q\<rparr> s
                            else s) (paletizadoStock d)\<rparr>"
    by blast
  then have "paletizadoStock d1 =
            map (\<lambda>s. if stock_id s = stock_id existing
                      then set_stock now \<lparr>stock_set_productId = None, stock_set_quantity = q\<rparr> s
                      else s) (paletizadoStock d)"
    by simp
  then show ?thesis by blast
next
  case None
  have f: "find (\<lambda>s. stock_productId s = product_id product) (paletizadoStock d) = None"
    by (rule getPaletizadoStockByProductId_None_find[OF p None])
  have "\<exists>row. stock_productId row = product_id product
                 \<and> paletizadoStock d1 = paletizadoStock d @ [row]"
    using u
    by (auto simp: upsert_stock_def None insertPaletizadoStockSchema_def createPaletizadoStock_def
        Let_def split: option.splits if_splits)
  with f show ?thesis by blast
qed

lemma post_stock_unchanged:
  "\<not> requireAuth sess \<or> getProductByCode d (req_stock_productCode req) = None \<Longrightarrow>
     snd (post_api_paletizado_stock now d sess req) = d"
  by (auto simp: post_api_paletizado_stock_def)

lemma post_stock_table:
  "paletizadoStock (snd (post_api_paletizado_stock now d sess req)) = paletizadoStock d
   \<or> (\<exists>i q. paletizadoStock (snd (post_api_paletizado_stock now d sess req)) =
            map (\<lambda>s. if stock_id s = i
                      then set_stock now \<lparr>stock_set_productId = None, stock_set_quantity = q\<rparr> s
                      else s) (paletizadoStock d))
   \<or> (requireAuth sess
      \<and> (\<exists>p. getProductByCode d (req_stock_productCode req) = Some p
             \<and> find (\<lambda>s. stock_productId s = product_id p) (paletizadoStock d) = None
             \<and> (\<exists>row. stock_productId row = product_id p
                   \<and> paletizadoStock (snd (post_api_paletizado_stock now d sess req))
                       = paletizadoStock d @ [row])))"
proof (cases "requireAuth sess \<and> getProductByCode d (req_stock_productCode req) \<noteq> None")
  case False
  then have "snd (post_api_paletizado_stock now d sess req) = d"
    using post_stock_unchanged[of sess d req now] by blast
  then show ?thesis by simp
next
  case True
  then obtain product where auth: "requireAuth sess"
    and p: "getProductByCode d (req_stock_productCode req) = Some product" by blast
  show ?thesis
  proof (cases "upsert_stock now d product (req_quantity req)")
    case (Inl e)
    from post_upsert_refused[OF auth p Inl] show ?thesis by simp
  next
    case (Inr rd)
    obtain r d1 where rd: "rd = (r, d1)" by (cases rd)
    have u: "upsert_stock now d product (req_quantity req) = Inr (r, d1)"
      using Inr rd by simp
    have t: "paletizadoStock (snd (post_api_paletizado_stock now d sess req)) = paletizadoStock d1"
      by (rule post_after_upsert[OF auth p u])
    from upsert_stock_table[OF p u] show ?thesis
    proof (elim disjE conjE exE)
      fix i q
      assume "paletizadoStock d1 =
            map (\<lambda>s. if stock_id s = i
                      then set_stock now \<lparr>stock_set_productId = None, stock_set_quantity = q\<rparr> s
                      else s) (paletizadoStock d)"
      then have "\<exists>i q. paletizadoStock (snd (post_api_paletizado_stock now d sess req)) =
            map (\<lambda>s. if stock_id s = i
                      then set_stock now \<lparr>stock_set_productId = None, stock_set_quantity = q\<rparr> s
                      else s) (paletizadoStock d)"
        unfolding t by blast
      then show ?thesis by blast
    next
      fix row
      assume f: "find (\<lambda>s. stock_productId s = product_id product) (paletizadoStock d) = None"
        and r: "stock_productId row = product_id product"
        and e: "paletizadoStock d1 = paletizadoStock d @ [row]"
      have "\<exists>row. stock_productId row = product_id product
                   \<and> paletizadoStock (snd (post_api_paletizado_stock now d sess req))
                       = paletizadoStock d @ [row]"
        unfolding t using r e by blast
      with auth p f show ?thesis by blast
    qed
  qed
qed

lemma distinct_map_same_key:
  assumes "\<And>x. g (f x) = g x"
  shows "distinct (map g (map f xs)) = distinct (map g xs)"
proof -
  have "map g (map f xs) = map g xs"
    using assms by (induction xs) simp_all
  then show ?thesis by (rule arg_cong)
qed

lemma stock_unique_set_stock:
  assumes "stock_unique d"
    and e: "paletizadoStock d' =
       map (\<lambda>s. if stock_id s = i
                 then set_stock now \<lparr>stock_set_productId = None, stock_set_quantity = q\<rparr> s
                 else s) (paletizadoStock d)"
  shows "stock_unique d'"
proof -
  have "distinct (map stock_productId
           (map (\<lambda>s. if stock_id s = i
                 then set_stock now \<lparr>stock_set_productId = None, stock_set_quantity = q\<rparr> s
                 else s) (paletizadoStock d)))
        = distinct (map stock_productId (paletizadoStock d))"
    by (rule distinct_map_same_key) (simp add: stock_productId_set_stock)
  then show ?thesis using assms(1) unfolding stock_unique_def e by simp
qed

lemma stock_unique_same:
  "paletizadoStock d' = paletizadoStock d \<Longrightarrow> stock_unique d \<Longrightarrow> stock_unique d'"
  by (simp add: stock_unique_def)

lemma stock_unique_append:
  assumes "stock_unique d"
    and f: "find (\<lambda>s. stock_productId s = k) (paletizadoStock d) = None"
    and r: "stock_productId row = k"
    and e: "paletizadoStock d' = paletizadoStock d @ [row]"
  shows "stock_unique d'"
proof -
  have "k \<notin> set (map stock_productId (paletizadoStock d))"
    using f by (auto simp: find_None_iff)
  then show ?thesis
    using assms(1) r by (simp add: stock_unique_def e)
qed

lemma post_stock_unique:
  assumes "stock_unique d"
  shows "stock_unique (snd (post_api_paletizado_stock now d sess req))"
  using post_stock_table[of now d sess req]
proof (elim disjE conjE exE)
  assume "paletizadoStock (snd (post_api_paletizado_stock now d sess req)) = paletizadoStock d"
  then show ?thesis using assms by (rule stock_unique_same)
next
  fix i q
  assume "paletizadoStock (snd (post_api_paletizado_stock now d sess req)) =
            map (\<lambda>s. if stock_id s = i
                      then set_stock now \<lparr>stock_set_productId = None, stock_set_quantity = q\<rparr> s
                      else s) (paletizadoStock d)"
  with assms show ?thesis by (rule stock_unique_set_stock)
next
  fix p row
  assume "find (\<lambda>s. stock_productId s = product_id p) (paletizadoStock d) = None"
    and "stock_productId row = product_id p"
    and "paletizadoStock (snd (post_api_paletizado_stock now d sess req)) = paletizadoStock d @ [row]"
  with assms show ?thesis by (rule stock_unique_append)
qed

lemma post_stock_grows:
  assumes "length (paletizadoStock (snd (post_api_paletizado_stock now d sess req)))
             \<noteq> length (paletizadoStock d)"
  shows "requireAuth sess
       \<and> (\<exists>p. getProductByCode d (req_stock_productCode req) = Some p
              \<and> find (\<lambda>s. stock_productId s = product_id p) (paletizadoStock d) = None)"
  using post_stock_table[of now d sess req]
proof (elim disjE conjE exE)
  assume "paletizadoStock (snd (post_api_paletizado_stock now d sess req)) = paletizadoStock d"
  then show ?thesis using assms by simp
next
  fix i q
  assume "paletizadoStock (snd (post_api_paletizado_stock now d sess req)) =
            map (\<lambda>s. if stock_id s = i
                      then set_stock now \<lparr>stock_set_productId = None, stock_set_quantity = q\<rparr> s
                      else s) (paletizadoStock d)"
  then have "length (paletizadoStock (snd (post_api_paletizado_stock now d sess req)))
      = length (paletizadoStock d)"
    by simp
  then show ?thesis using assms by simp
next
  fix p row
  assume "requireAuth sess" and "getProductByCode d (req_stock_productCode req) = Some p"
    and "find (\<lambda>s. stock_productId s = product_id p) (paletizadoStock d) = None"
  then show ?thesis by blast
qed

lemma put_stock_table:
  "paletizadoStock (snd (put_api_paletizado_stock now d sess i quantity)) = paletizadoStock d
   \<or> (\<exists>q. paletizadoStock (snd (put_api_paletizado_stock now d sess i quantity))
       = map (\<lambda>s. if stock_id s = i
                then set_stock now \<lparr>stock_set_productId = None, stock_set_quantity = q\<rparr> s else s)
           (paletizadoStock d))"
proof (cases "requireAuth sess")
  case False
  then show ?thesis by (simp add: put_api_paletizado_stock_def)
next
  case True
  show ?thesis
  proof (cases "updatePaletizadoStock now d i \<lparr>set_stock_productId = None, set_stock_quantity = quantity\<rparr>")
    case (Inl e)
    then show ?thesis using True by (simp add: put_api_paletizado_stock_def)
  next
    case (Inr rd)
    obtain r d1 where rd: "rd = (r, d1)" by (cases rd)
    have u: "updatePaletizadoStock now d i \<lparr>set_stock_productId = None, set_stock_quantity = quantity\<rparr>
        = Inr (r, d1)"
      using Inr rd by simp
    have s: "snd (put_api_paletizado_stock now d sess i quantity) = d1"
      using True u by (simp add: put_api_paletizado_stock_def)
    from updatePaletizadoStock_rows[OF u] obtain q where
      "d1 = d\<lparr>paletizadoStock :=
                  map (\<lambda>s. if stock_id s = i
                            then set_stock now \<lparr>stock_set_productId = None, stock_set_quantity = q\<rparr> s
                            else s) (paletizadoStock d)\<rparr>"
      by blast
    then have "paletizadoStock (snd (put_api_paletizado_stock now d sess i quantity))
       = map (\<lambda>s. if stock_id s = i
                then set_stock now \<lparr>stock_set_productId = None, stock_set_quantity = q\<rparr> s else s)
           (paletizadoStock d)"
      by (simp add: s)
    then show ?thesis by blast
  qed
qed

lemma put_stock_unique:
  assumes "stock_unique d"
  shows "stock_unique (snd (put_api_paletizado_stock now d sess i quantity))"
  using put_stock_table[of now d sess i quantity]
proof (elim disjE exE)
  assume "paletizadoStock (snd (put_api_paletizado_stock now d sess i quantity)) = paletizadoStock d"
  then show ?thesis using assms by (rule stock_unique_same)
next
  fix q
  assume "paletizadoStock (snd (put_api_paletizado_stock now d sess i quantity))
       = map (\<lambda>s. if stock_id s = i
                then set_stock now \<lparr>stock_set_productId = None, stock_set_quantity = q\<rparr> s else s)
           (paletizadoStock d)"
  with assms show ?thesis by (rule stock_unique_set_stock)
qed

lemma delete_stock_table:
  "paletizadoStock (snd (delete_api_paletizado_stock now d sess i)) = paletizadoStock d
   \<or> paletizadoStock (snd (delete_api_paletizado_stock now d sess i))
       = filter (\<lambda>s. stock_id s \<noteq> i) (paletizadoStock d)"
  by (simp add: delete_api_paletizado_stock_def deletePaletizadoStock_def createActivityLog_def Let_def
      split: option.splits prod.splits sum.splits)

lemma delete_stock_unique:
  assumes "stock_unique d"
  shows "stock_unique (snd (delete_api_paletizado_stock now d sess i))"
proof -
  from delete_stock_table[of now d sess i] show ?thesis
  proof (elim disjE)
    assume "paletizadoStock (snd (delete_api_paletizado_stock now d sess i)) = paletizadoStock d"
    then show ?thesis using assms by (rule stock_unique_same)
  next
    assume e: "paletizadoStock (snd (delete_api_paletizado_stock now d sess i))
       = filter (\<lambda>s. stock_id s \<noteq> i) (paletizadoStock d)"
    show ?thesis
      unfolding stock_unique_def e
      using assms[unfolded stock_unique_def] by (rule distinct_map_filter)
  qed
qed

lemma post_picos_stock:
  "paletizadoStock (snd (post_api_picos now d sess req)) = paletizadoStock d"
  by (simp add: post_api_picos_def createPico_def createActivityLog_def Let_def
      split: option.splits)

lemma put_picos_stock:
  "paletizadoStock (snd (put_api_picos now d sess i req)) = paletizadoStock d"
  using put_api_picos_changes[of now d sess i req] by auto

lemma delete_picos_stock:
  "paletizadoStock (snd (delete_api_picos now d sess i)) = paletizadoStock d"
  by (simp add: delete_api_picos_def deletePico_def createActivityLog_def Let_def
      split: option.splits prod.splits sum.splits)

lemma post_users_stock:
  "paletizadoStock (snd (post_api_users now bc d sess req)) = paletizadoStock d"
  by (simp add: post_api_users_def createUser_def Let_def split: option.splits)

lemma put_users_stock:
  "paletizadoStock (snd (put_api_users now bc d sess i req)) = paletizadoStock d"
  by (simp add: put_api_users_def updateUser_def update_users_def Let_def split: option.splits)

lemma delete_users_stock:
  "paletizadoStock (snd (delete_api_users d sess i)) = paletizadoStock d"
  by (simp add: delete_api_users_def deleteUser_def)

lemma post_products_stock:
  "paletizadoStock (snd (post_api_products now d sess req)) = paletizadoStock d"
  by (simp add: post_api_products_def createProduct_def Let_def split: option.splits)

lemma put_products_stock:
  "paletizadoStock (snd (put_api_products now d sess i req)) = paletizadoStock d"
  by (simp add: put_api_products_def updateProduct_def update_products_def Let_def split: option.splits)

lemma delete_products_stock:
  "paletizadoStock (snd (delete_api_products d sess i)) = paletizadoStock d"
  by (simp add: delete_api_products_def deleteProduct_def)

lemma change_password_stock:
  "paletizadoStock (fst (snd (post_api_auth_change_password now bc d sess req))) = paletizadoStock d"
  by (simp add: post_api_auth_change_password_def updateUserPassword_def Let_def split: option.splits)

lemma handle_stock_unique:
  assumes "stock_unique d"
  shows "stock_unique (fst (snd (handle now bc d sess r)))"
proof (cases r)
  case (POST_paletizado_stock b)
  then show ?thesis using post_stock_unique[OF assms, of now sess b] by (simp add: split_beta)
next
  case (PUT_paletizado_stock i q)
  then show ?thesis using put_stock_unique[OF assms, of now sess i q] by (simp add: split_beta)
next
  case (DELETE_paletizado_stock i)
  then show ?thesis using delete_stock_unique[OF assms, of now sess i] by (simp add: split_beta)
next
  case (POST_auth_change_password b)
  then show ?thesis using stock_unique_same[OF change_password_stock assms] by simp
next
  case (POST_users b)
  then show ?thesis using stock_unique_same[OF post_users_stock assms] by (simp add: split_beta)
next
  case (PUT_users i b)
  then show ?thesis using stock_unique_same[OF put_users_stock assms] by (simp add: split_beta)
next
  case (DELETE_users i)
  then show ?thesis using stock_unique_same[OF delete_users_stock assms] by (simp add: split_beta)
next
  case (POST_products b)
  then show ?thesis using stock_unique_same[OF post_products_stock assms] by (simp add: split_beta)
next
  case (PUT_products i b)
  then show ?thesis using stock_unique_same[OF put_products_stock assms] by (simp add: split_beta)
next
  case (DELETE_products i)
  then show ?thesis using stock_unique_same[OF delete_products_stock assms] by (simp add: split_beta)
next
  case (POST_picos b)
  then show ?thesis using stock_unique_same[OF post_picos_stock assms] by (simp add: split_beta)
next
  case (PUT_picos i b)
  then show ?thesis using stock_unique_same[OF put_picos_stock assms] by (simp add: split_beta)
next
  case (DELETE_picos i)
  then show ?thesis using stock_unique_same[OF delete_picos_stock assms] by (simp add: split_beta)
qed (use assms in \<open>simp_all add: split_beta\<close>)

lemma run_stock_unique: "stock_unique d \<Longrightarrow> stock_unique (run d steps)"
  by (induction steps arbitrary: d) (simp_all add: handle_stock_unique)

lemma stock_unique_empty: "stock_unique empty_db"
  by (simp add: stock_unique_def empty_db_def)

subsection \<open>Claims about the paletizado stock and the paired writes\<close>

text \<open>
  \<^bold>\<open>C2.\<close> Requests handled one after the other keep at most one stock row per product:
  the property holds of the empty database and every request preserves it. An
  authenticated \<open>POST /api/paletizado-stock\<close> for a known product, with a whole number
  \<open>n\<close> as the quantity of the body, in a database whose stock ids are 32-bit integers (a
  \<open>serial\<close> column holds nothing else): if a row for the product exists, with quantity
  \<open>q\<close>, and \<open>q + n\<close> fits the 32-bit \<open>integer\<close> column, the table afterwards is the old one
  with the quantity of that row (the rows with its id) set to \<open>q + n\<close>, so no row is added;
  if no row exists and \<open>n\<close> fits the column, exactly one row, with quantity \<open>n\<close>, is
  appended; when the new quantity does not fit, the answer is 400 and the database is as
  it was. The route changes the number of rows in no other case, whatever the body holds.
\<close>

theorem stock_one_row_per_product:
  "stock_unique (run empty_db steps)
   \<and> (stock_unique d \<longrightarrow> stock_unique (run d steps))
   \<and> (requireAuth sess \<and> getProductByCode d (req_stock_productCode req) = Some product
        \<and> req_quantity req = PNum n
        \<and> list_all (\<lambda>s. int4 (stock_id s)) (paletizadoStock d) \<longrightarrow>
        (case find (\<lambda>s. stock_productId s = product_id product) (paletizadoStock d) of
           Some existing \<Rightarrow>
             if int4 (stock_quantity existing + n)
             then paletizadoStock (snd (post_api_paletizado_stock now d sess req)) =
                    map (\<lambda>s. if stock_id s = stock_id existing
                              then s\<lparr>stock_quantity := stock_quantity existing + n,
                                     stock_updatedAt := Some now\<rparr>
                              else s)
                      (paletizadoStock d)
             else post_api_paletizado_stock now d sess req =
                    (res_status_json 400 (message ''Invalid stock data''), d)
         | None \<Rightarrow>
             if int4 n
             then paletizadoStock (snd (post_api_paletizado_stock now d sess req)) =
                    paletizadoStock d @
                      [\<lparr>stock_id = paletizado_stock_id_seq d,
                        stock_productId = product_id product,
                        stock_quantity = n,
                        stock_createdAt = Some now,
                        stock_updatedAt = Some now\<rparr>]
             else post_api_paletizado_stock now d sess req =
                    (res_status_json 400 (message ''Invalid stock data''), d)))
   \<and> (length (paletizadoStock (snd (post_api_paletizado_stock now d sess req)))
         \<noteq> length (paletizadoStock d) \<longrightarrow>
        requireAuth sess
        \<and> (\<exists>p. getProductByCode d (req_stock_productCode req) = Some p
               \<and> find (\<lambda>s. stock_productId s = product_id p) (paletizadoStock d) = None))"
proof (intro conjI impI)
  show "stock_unique (run empty_db steps)"
    by (rule run_stock_unique[OF stock_unique_empty])
next
  assume "stock_unique d"
  then show "stock_unique (run d steps)" by (rule run_stock_unique)
next
  assume a: "requireAuth sess \<and> getProductByCode d (req_stock_productCode req) = Some product
        \<and> req_quantity req = PNum n
        \<and> list_all (\<lambda>s. int4 (stock_id s)) (paletizadoStock d)"
  then have auth: "requireAuth sess"
    and p: "getProductByCode d (req_stock_productCode req) = Some product"
    and n: "req_quantity req = PNum n"
    and ids: "\<forall>s \<in> set (paletizadoStock d). int4 (stock_id s)"
    by (simp_all add: list_all_iff)
  show "case find (\<lambda>s. stock_productId s = product_id product) (paletizadoStock d) of
           Some existing \<Rightarrow>
             if int4 (stock_quantity existing + n)
             then paletizadoStock (snd (post_api_paletizado_stock now d sess req)) =
                    map (\<lambda>s. if stock_id s = stock_id existing
                              then s\<lparr>stock_quantity := stock_quantity existing + n,
                                     stock_updatedAt := Some now\<rparr>
                              else s)
                      (paletizadoStock d)
             else post_api_paletizado_stock now d sess req =
                    (res_status_json 400 (message ''Invalid stock data''), d)
         | None \<Rightarrow>
             if int4 n
             then paletizadoStock (snd (post_api_paletizado_stock now d sess req)) =
                    paletizadoStock d @
                      [\<lparr>stock_id = paletizado_stock_id_seq d,
                        stock_productId = product_id product,
                        stock_quantity = n,
                        stock_createdAt = Some now,
                        stock_updatedAt = Some now\<rparr>]
             else post_api_paletizado_stock now d sess req =
                    (res_status_json 400 (message ''Invalid stock data''), d)"
  proof (cases "find (\<lambda>s. stock_productId s = product_id product) (paletizadoStock d)")
    case None
    from post_stock_none[OF auth p None n, of now] show ?thesis
      by (simp add: None new_stock_def)
  next
    case (Some existing)
    have "existing \<in> set (paletizadoStock d)"
      using find_Some_set[OF Some] by simp
    then have i: "int4 (stock_id existing)" using ids by blast
    from post_stock_existing[OF auth p Some i n, of now] show ?thesis
      unfolding restock_def by (simp add: Some)
  qed
next
  assume g: "length (paletizadoStock (snd (post_api_paletizado_stock now d sess req)))
         \<noteq> length (paletizadoStock d)"
  show "requireAuth sess" using post_stock_grows[OF g] by blast
  show "\<exists>p. getProductByCode d (req_stock_productCode req) = Some p
               \<and> find (\<lambda>s. stock_productId s = product_id p) (paletizadoStock d) = None"
    using post_stock_grows[OF g] by blast
qed

text \<open>
  A row that holds 2147483647 and a request for one more: the answer is 400 and the row
  keeps its quantity.
\<close>

theorem stock_one_row_per_product_counterexample:
  "requireAuth ex_session
   \<and> getProductByCode ex_db_stock_full (req_stock_productCode ex_stock_req_one) = Some ex_product
   \<and> map stock_productId (paletizadoStock ex_db_stock_full) = [product_id ex_product]
   \<and> map stock_quantity (paletizadoStock ex_db_stock_full) = [2147483647]
   \<and> req_quantity ex_stock_req_one = PNum 1
   \<and> post_api_paletizado_stock 5 ex_db_stock_full ex_session ex_stock_req_one
     = (res_status_json 400 (message ''Invalid stock data''), ex_db_stock_full)
   \<and> map stock_quantity
        (paletizadoStock (snd (post_api_paletizado_stock 5 ex_db_stock_full ex_session ex_stock_req_one)))
     \<noteq> [2147483647 + 1]"
  by (simp add: post_api_paletizado_stock_def upsert_stock_def getPaletizadoStockByProductId_def
      with_product_def updatePaletizadoStock_def set_key_def integer_column_def int4_def
      js_plus_def to_number_def is_string_def getProductByCode_def text_param_def to_string_def
      requireAuth_def Let_def
      empty_db_def ex_product_def ex_db_def ex_session_def ex_stock_def ex_db_stock_full_def
      ex_stock_req_one_def)

lemma ex_getProduct_stock: "getProductByCode ex_db_stock (PStr ''P1'') = Some ex_product"
  by (simp add: getProductByCode_def text_param_def to_string_def empty_db_def ex_product_def
      ex_db_def ex_stock_def ex_db_stock_def)

lemma ex_getProduct_stock_full: "getProductByCode ex_db_stock_full (PStr ''P1'') = Some ex_product"
  by (simp add: getProductByCode_def text_param_def to_string_def empty_db_def ex_product_def ex_db_def ex_stock_def
      ex_db_stock_full_def)

lemma ex_stock_unique: "stock_unique ex_db_stock"
  by (simp add: stock_unique_def empty_db_def ex_product_def ex_db_def ex_stock_def ex_db_stock_def)

theorem stock_one_row_per_product_witness:
  "stock_unique ex_db_stock
   \<and> stock_unique (run ex_db_stock [ex_step, ex_step])
   \<and> requireAuth ex_session
   \<and> getProductByCode ex_db_stock (req_stock_productCode ex_stock_req) = Some ex_product
   \<and> req_quantity ex_stock_req = PNum 4
   \<and> list_all (\<lambda>s. int4 (stock_id s)) (paletizadoStock ex_db_stock)
   \<and> paletizadoStock (snd (post_api_paletizado_stock 5 ex_db_stock ex_session ex_stock_req))
       = [ex_stock\<lparr>stock_quantity := 6 + 4, stock_updatedAt := Some 5\<rparr>]
   \<and> paletizadoStock (snd (post_api_paletizado_stock 5 ex_db ex_session ex_stock_req))
       = [\<lparr>stock_id = 1, stock_productId = 1, stock_quantity = 4,
           stock_createdAt = Some 5, stock_updatedAt = Some 5\<rparr>]
   \<and> post_api_paletizado_stock 5 ex_db_stock_full ex_session ex_stock_req_one
       = (res_status_json 400 (message ''Invalid stock data''), ex_db_stock_full)"
proof -
  have q: "req_stock_productCode ex_stock_req = PStr ''P1''" "req_quantity ex_stock_req = PNum 4"
    "req_stock_productCode ex_stock_req_one = PStr ''P1''" "req_quantity ex_stock_req_one = PNum 1"
    by (simp_all add: ex_stock_req_def ex_stock_req_one_def)
  have 1: "stock_unique (run ex_db_stock [ex_step, ex_step])"
    using stock_one_row_per_product[where d = ex_db_stock and steps = "[ex_step, ex_step]"
        and sess = ex_session and req = ex_stock_req and product = ex_product and now = 5 and n = 4]
      ex_stock_unique
    by blast
  have 2: "paletizadoStock (snd (post_api_paletizado_stock 5 ex_db_stock ex_session ex_stock_req))
       = [ex_stock\<lparr>stock_quantity := 6 + 4, stock_updatedAt := Some 5\<rparr>]"
    using stock_one_row_per_product[where d = ex_db_stock and steps = "[]"
        and sess = ex_session and req = ex_stock_req and product = ex_product and now = 5 and n = 4]
      ex_auth ex_getProduct_stock
    by (simp add: q int4_def)
       (simp add: int4_def empty_db_def ex_product_def ex_db_def ex_stock_def ex_db_stock_def)
  have 3: "paletizadoStock (snd (post_api_paletizado_stock 5 ex_db ex_session ex_stock_req))
       = [\<lparr>stock_id = 1, stock_productId = 1, stock_quantity = 4,
           stock_createdAt = Some 5, stock_updatedAt = Some 5\<rparr>]"
    using stock_one_row_per_product[where d = ex_db and steps = "[]"
        and sess = ex_session and req = ex_stock_req and product = ex_product and now = 5 and n = 4]
      ex_auth ex_getProduct
    by (simp add: q int4_def)
       (simp add: int4_def empty_db_def ex_product_def ex_db_def)
  have 4: "post_api_paletizado_stock 5 ex_db_stock_full ex_session ex_stock_req_one
       = (res_status_json 400 (message ''Invalid stock data''), ex_db_stock_full)"
    using stock_one_row_per_product[where d = ex_db_stock_full and steps = "[]"
        and sess = ex_session and req = ex_stock_req_one and product = ex_product and now = 5 and n = 1]
      ex_auth ex_getProduct_stock_full
    by (simp add: q int4_def)
       (simp add: int4_def empty_db_def ex_product_def ex_db_def ex_stock_def ex_db_stock_full_def)
  have 5: "list_all (\<lambda>s. int4 (stock_id s)) (paletizadoStock ex_db_stock)"
    by (simp add: int4_def ex_db_stock_def ex_stock_def)
  show ?thesis
    using 1 2 3 4 5 ex_stock_unique ex_auth ex_getProduct_stock by (simp add: q)
qed

text \<open>
  \<^bold>\<open>C8.\<close> There are executions of \<open>POST /api/picos\<close> and of \<open>POST /api/paletizado-stock\<close>
  in which the pico or stock row is written, the insert into the activity log that
  follows fails, the handler answers with an error, and the row stays: in the example
  database after the \<open>item_type\<close> migration.
\<close>

theorem paired_writes_not_atomic:
  "createPico 7 ex_db_migrated
      \<lparr>new_pico_productId = 1, new_pico_bases = Some 2, new_pico_looseUnits = Some 3,
       new_pico_totalUnits = 13, new_pico_towerLocation = ''01''\<rparr>
     = Inr (ex_pico, ex_db_migrated\<lparr>picos := [ex_pico], picos_id_seq := 2\<rparr>)
   \<and> createActivityLog 7 (ex_db_migrated\<lparr>picos := [ex_pico], picos_id_seq := 2\<rparr>)
        (entry_log ex_product (PNum 13)) = Inl DatabaseError
   \<and> post_api_picos 7 ex_db_migrated ex_session ex_pico_req
     = (res_status_json 400 (message ''Invalid pico data''),
        ex_db_migrated\<lparr>picos := [ex_pico], picos_id_seq := 2\<rparr>)
   \<and> createPaletizadoStock 7 ex_db_migrated \<lparr>new_stock_productId = 1, new_stock_quantity = Some 4\<rparr>
     = Inr (ex_new_stock,
            ex_db_migrated\<lparr>paletizadoStock := [ex_new_stock],
                            paletizado_stock_id_seq := 2\<rparr>)
   \<and> createActivityLog 7
        (ex_db_migrated\<lparr>paletizadoStock := [ex_new_stock],
                         paletizado_stock_id_seq := 2\<rparr>)
        (entry_log ex_product (PNum 4)) = Inl DatabaseError
   \<and> post_api_paletizado_stock 7 ex_db_migrated ex_session ex_stock_req
     = (res_status_json 400 (message ''Invalid stock data''),
        ex_db_migrated\<lparr>paletizadoStock := [ex_new_stock],
                         paletizado_stock_id_seq := 2\<rparr>)"
  by (simp add: post_api_picos_def post_api_paletizado_stock_def upsert_stock_def
      getPaletizadoStockByProductId_def with_product_def insertPaletizadoStockSchema_def
      createPaletizadoStock_def insertPicoSchema_def createPico_def createActivityLog_def
      z_number_def z_number_optional_def int4_def js_plus_def js_times_def to_number_def
      is_string_def characters_def
      entry_log_def new_stock_def getProductByCode_def text_param_def to_string_def
      references_product_def
      two_digits_def is_digit_def varchar_def requireAuth_def
      add_item_type_to_activity_log_def Let_def empty_db_def ex_product_def ex_db_def ex_session_def ex_pico_req_def
      ex_pico_def ex_stock_req_def ex_new_stock_def ex_db_migrated_def)

subsection \<open>Claims about users and sessions\<close>

lemma without_password_defined: "without_password u \<noteq> JUndefined"
  by (simp add: without_password_def)

lemma without_password_clean:
  "\<not> has_field ''password'' (stringify (without_password u))"
  by (cases u)
     (simp_all add: without_password_def user_fields_def js_date_def js_role_def
        split: option.splits userRoleEnum.splits)

lemma message_clean: "\<not> has_field ''password'' (stringify (message m))"
  by (simp add: message_def)

lemma users_clean:
  "\<not> has_field_elems ''password'' (stringify_elems (map (\<lambda>u. without_password (Some u)) us))"
  by (induction us) (simp_all add: without_password_defined without_password_clean)

lemma login_clean:
  "\<not> has_field ''password'' (stringify (body (fst (post_api_auth_login bc d sess b))))"
  by (simp add: post_api_auth_login_def res_json_def res_status_json_def
      without_password_defined without_password_clean message_clean
      split: option.splits)

lemma get_auth_user_clean:
  "\<not> has_field ''password'' (stringify (body (get_api_auth_user d sess)))"
  by (simp add: get_api_auth_user_def unauthorized_def res_json_def res_status_json_def
      without_password_clean message_clean
      split: option.splits)

lemma get_users_clean:
  "\<not> has_field ''password'' (stringify (body (get_api_users d sess)))"
  by (simp add: get_api_users_def unauthorized_def admin_required_def res_json_def
      res_status_json_def users_clean message_clean)

lemma post_users_clean:
  "\<not> has_field ''password'' (stringify (body (fst (post_api_users now bc d sess b))))"
  by (simp add: post_api_users_def unauthorized_def admin_required_def res_json_def
      res_status_json_def Let_def without_password_clean message_clean
      split: option.splits sum.splits)

lemma put_users_clean:
  "\<not> has_field ''password'' (stringify (body (fst (put_api_users now bc d sess i b))))"
  by (simp add: put_api_users_def unauthorized_def admin_required_def res_json_def
      res_status_json_def Let_def without_password_clean message_clean
      split: option.splits sum.splits)

text \<open>
  \<^bold>\<open>C5.\<close> The JSON sent by \<open>POST /api/auth/login\<close>, \<open>GET /api/auth/user\<close>,
  \<open>GET /api/users\<close>, \<open>POST /api/users\<close> and \<open>PUT /api/users/:id\<close> has no \<open>password\<close>
  property, at any depth, for every database, session and request.
\<close>

theorem user_payloads_without_password:
  "\<not> has_field ''password'' (stringify (body (fst (post_api_auth_login bc d sess lb))))
   \<and> \<not> has_field ''password'' (stringify (body (get_api_auth_user d sess)))
   \<and> \<not> has_field ''password'' (stringify (body (get_api_users d sess)))
   \<and> \<not> has_field ''password'' (stringify (body (fst (post_api_users now bc d sess ub))))
   \<and> \<not> has_field ''password'' (stringify (body (fst (put_api_users now bc d sess i uu))))"
  by (intro conjI login_clean get_auth_user_clean get_users_clean post_users_clean put_users_clean)

lemma ex_get_auth_user:
  "stringify (body (get_api_auth_user ex_db_admin ex_admin_session)) =
     JObj [(''id'', JNum 1), (''name'', JStr ''Administrador''), (''nickname'', JStr ''Admin''),
           (''username'', JStr ''admin''), (''role'', JStr ''administrador''),
           (''isFirstLogin'', JBool True), (''createdAt'', JDate 0), (''updatedAt'', JDate 0)]"
  by (simp add: get_api_auth_user_def getUser_def res_json_def without_password_def
      user_fields_def js_date_def js_role_def empty_db_def ex_admin_def ex_db_admin_def ex_admin_session_def)

lemma ex_stored_password:
  "has_field ''password'' (stringify (JObj (user_fields ex_admin)))"
  by (simp add: user_fields_def js_date_def js_role_def ex_admin_def)

theorem user_payloads_without_password_witness:
  "has_field ''password'' (stringify (JObj (user_fields ex_admin)))
   \<and> stringify (body (get_api_auth_user ex_db_admin ex_admin_session)) =
       JObj [(''id'', JNum 1), (''name'', JStr ''Administrador''), (''nickname'', JStr ''Admin''),
             (''username'', JStr ''admin''), (''role'', JStr ''administrador''),
             (''isFirstLogin'', JBool True), (''createdAt'', JDate 0), (''updatedAt'', JDate 0)]
   \<and> \<not> has_field ''password'' (stringify (body (get_api_auth_user ex_db_admin ex_admin_session)))
   \<and> \<not> has_field ''password'' (stringify (body (get_api_users ex_db_admin ex_admin_session)))"
  using user_payloads_without_password[where d = ex_db_admin and sess = ex_admin_session]
    ex_get_auth_user ex_stored_password
  by simp










subsection \<open>Claims about the dashboard and the server start\<close>

lemma count_categories:
  "length (filter (\<lambda>p. product_category p = alta_rotacao) ps)
     + length (filter (\<lambda>p. product_category p = baixa_rotacao) ps) = length ps"
proof (induction ps)
  case Nil
  show ?case by simp
next
  case (Cons p ps)
  then show ?case by (cases "product_category p") simp_all
qed

lemma count_kept: "js_or (count_star rows) (PNum 0) = PStr (decimal (length rows))"
  by (simp add: js_or_def count_star_def truthy_def decimal_not_empty)

text \<open>
  \<^bold>\<open>C6.\<close> The dashboard's \<open>altaRotacao\<close> and \<open>baixaRotacao\<close> are not numbers but the
  decimal texts of the two counts, in every database. The counts add up to the number of
  product rows, but \<open>altaRotacao + baixaRotacao\<close>, as the dashboard page computes it
  from the answer, is the concatenation of the two texts. With two products of high and
  one of low rotation the answer carries \<open>"2"\<close> and \<open>"1"\<close>, and their sum is \<open>"21"\<close>, not 3.
\<close>

theorem dashboard_counts_are_text:
  "altaRotacao (getDashboardStats d) =
     PStr (decimal (length (filter (\<lambda>p. product_category p = alta_rotacao) (products d))))
   \<and> baixaRotacao (getDashboardStats d) =
     PStr (decimal (length (filter (\<lambda>p. product_category p = baixa_rotacao) (products d))))
   \<and> length (filter (\<lambda>p. product_category p = alta_rotacao) (products d))
       + length (filter (\<lambda>p. product_category p = baixa_rotacao) (products d))
     = length (products d)
   \<and> js_plus (altaRotacao (getDashboardStats d)) (baixaRotacao (getDashboardStats d)) =
     PStr (decimal (length (filter (\<lambda>p. product_category p = alta_rotacao) (products d)))
           @ decimal (length (filter (\<lambda>p. product_category p = baixa_rotacao) (products d))))
   \<and> body (get_api_dashboard_stats ex_db_products ex_session) =
       JObj [(''totalPicos'', JStr ''0''), (''totalPaletizados'', JStr ''0''),
             (''altaRotacao'', JStr ''2''), (''baixaRotacao'', JStr ''1''),
             (''recentEntries'', JArr []), (''recentExits'', JArr [])]
   \<and> js_plus (altaRotacao (getDashboardStats ex_db_products))
        (baixaRotacao (getDashboardStats ex_db_products)) = PStr ''21''
   \<and> length (products ex_db_products) = 3"
proof (intro conjI)
  show "altaRotacao (getDashboardStats d) =
     PStr (decimal (length (filter (\<lambda>p. product_category p = alta_rotacao) (products d))))"
    by (simp add: getDashboardStats_def count_kept)
  show "baixaRotacao (getDashboardStats d) =
     PStr (decimal (length (filter (\<lambda>p. product_category p = baixa_rotacao) (products d))))"
    by (simp add: getDashboardStats_def count_kept)
  show "length (filter (\<lambda>p. product_category p = alta_rotacao) (products d))
       + length (filter (\<lambda>p. product_category p = baixa_rotacao) (products d))
     = length (products d)"
    by (rule count_categories)
  show "js_plus (altaRotacao (getDashboardStats d)) (baixaRotacao (getDashboardStats d)) =
     PStr (decimal (length (filter (\<lambda>p. product_category p = alta_rotacao) (products d)))
           @ decimal (length (filter (\<lambda>p. product_category p = baixa_rotacao) (products d))))"
    by (simp add: getDashboardStats_def count_kept js_plus_def is_string_def to_string_def)
  show "body (get_api_dashboard_stats ex_db_products ex_session) =
       JObj [(''totalPicos'', JStr ''0''), (''totalPaletizados'', JStr ''0''),
             (''altaRotacao'', JStr ''2''), (''baixaRotacao'', JStr ''1''),
             (''recentEntries'', JArr []), (''recentExits'', JArr [])]"
    by (simp add: get_api_dashboard_stats_def ex_auth res_json_def stats_obj_def js_prim_def
        getDashboardStats_def count_kept recent_def decimal_digit
        empty_db_def ex_product_def ex_products_def ex_db_products_def)
  show "js_plus (altaRotacao (getDashboardStats ex_db_products))
        (baixaRotacao (getDashboardStats ex_db_products)) = PStr ''21''"
    by (simp add: getDashboardStats_def count_kept js_plus_def is_string_def to_string_def
        decimal_digit empty_db_def ex_product_def ex_products_def ex_db_products_def)
  show "length (products ex_db_products) = 3"
    by (simp add: ex_db_products_def ex_products_def)
qed









end
